theory Spec2Isabelle
  imports Main
begin

section \<open>Persistent store (bot.py, "DB + MIGRATIONS" and the helpers after it)\<close>

text \<open>
  The bot keeps five SQLite tables. Each table is modelled by the shape its primary key
  gives it: a table keyed by one column is a map from that column, the reviewers table
  (composite key, listed with ORDER BY) is a duplicate-free list of pairs, and the
  submissions table is a list of rows in insertion order together with the AUTOINCREMENT
  counter that SQLite keeps in \<open>sqlite_sequence\<close>. The columns \<open>accepted_at\<close> and
  \<open>created_at\<close> hold the wall clock at the time of the write; no handler ever reads them
  back, and they are left out.

  Status, reviewer mode and content type are TEXT columns compared with string literals
  in the source, so they stay strings here.
\<close>

type_synonym user_id = int
type_synonym chat_id = int

definition STATUS_PENDING :: string where "STATUS_PENDING = ''pending''"
definition STATUS_SENT :: string where "STATUS_SENT = ''sent''"
definition STATUS_REJECTED :: string where "STATUS_REJECTED = ''rejected''"

record channel_row =
  username :: "string option"
  owner_user_id :: user_id
  moderation :: int
  reviewers_mode :: string

record submission_row =
  sub_id :: int
  sub_chat_id :: chat_id
  sender_user_id :: user_id
  sub_content_type :: string
  sub_text :: "string option"
  sub_file_id :: "string option"
  status :: string

record database =
  user_consents :: "user_id \<rightharpoonup> (int \<times> string)"
  channels :: "chat_id \<rightharpoonup> channel_row"
  deeplinks :: "string \<rightharpoonup> chat_id"
  channel_reviewers :: "(chat_id \<times> user_id) list"
  submissions :: "submission_row list"
  sqlite_sequence :: int

definition empty_db :: database where
  "empty_db = \<lparr> user_consents = Map.empty, channels = Map.empty, deeplinks = Map.empty,
                channel_reviewers = [], submissions = [], sqlite_sequence = 0 \<rparr>"

subsection \<open>Consent helpers\<close>

definition get_user_consent :: "database \<Rightarrow> user_id \<Rightarrow> (int \<times> string) option" where
  "get_user_consent d uid = user_consents d uid"

text \<open>INSERT ... ON CONFLICT(user_id) DO UPDATE: the row of the user is overwritten.\<close>

definition set_user_consent :: "user_id \<Rightarrow> int \<Rightarrow> string \<Rightarrow> database \<Rightarrow> database" where
  "set_user_consent uid accepted policy_hash d =
     d\<lparr>user_consents := (user_consents d)(uid \<mapsto> (accepted, policy_hash))\<rparr>"

text \<open>
  \<open>POLICY_HASH\<close> is computed once at import time from the policy file; it is a parameter
  of everything that reads it.
\<close>

definition user_is_allowed :: "string \<Rightarrow> database \<Rightarrow> user_id \<Rightarrow> bool" where
  "user_is_allowed POLICY_HASH d uid =
     (case get_user_consent d uid of
        None \<Rightarrow> False
      | Some (accepted, ph) \<Rightarrow> accepted = 1 \<and> ph = POLICY_HASH)"

text \<open>
  The wording of the specification, for comparison with the code: a history of recorded
  decisions \<open>(user, accepted, hash)\<close>, oldest first, and the latest decision of a user in it.
\<close>

fun record_decisions :: "(user_id \<times> int \<times> string) list \<Rightarrow> database \<Rightarrow> database" where
  "record_decisions [] d = d"
| "record_decisions ((uid, accepted, ph) # ds) d =
     record_decisions ds (set_user_consent uid accepted ph d)"

fun latest_decision :: "(user_id \<times> int \<times> string) list \<Rightarrow> user_id \<Rightarrow> (int \<times> string) option" where
  "latest_decision [] uid = None"
| "latest_decision ((u, accepted, ph) # ds) uid =
     (case latest_decision ds uid of
        Some r \<Rightarrow> Some r
      | None \<Rightarrow> if u = uid then Some (accepted, ph) else None)"

subsection \<open>Channel, reviewer and deeplink helpers\<close>

text \<open>
  \<open>upsert_channel\<close>: INSERT with the literal mode \<open>'owner'\<close>; on a conflict on
  \<open>chat_id\<close> only \<open>username\<close> and \<open>owner_user_id\<close> are assigned.
\<close>

definition upsert_channel ::
  "chat_id \<Rightarrow> string option \<Rightarrow> user_id \<Rightarrow> int \<Rightarrow> database \<Rightarrow> database" where
  "upsert_channel cid uname owner modr d =
     (case channels d cid of
        None \<Rightarrow>
          d\<lparr>channels := (channels d)(cid \<mapsto>
               \<lparr>username = uname, owner_user_id = owner, moderation = modr,
                reviewers_mode = ''owner''\<rparr>)\<rparr>
      | Some row \<Rightarrow>
          d\<lparr>channels := (channels d)(cid \<mapsto> row\<lparr>username := uname, owner_user_id := owner\<rparr>)\<rparr>)"

definition get_channel_by_chat_id :: "database \<Rightarrow> chat_id \<Rightarrow> channel_row option" where
  "get_channel_by_chat_id d cid = channels d cid"

definition set_channel_moderation :: "chat_id \<Rightarrow> int \<Rightarrow> database \<Rightarrow> database" where
  "set_channel_moderation cid modr d =
     (case channels d cid of
        None \<Rightarrow> d
      | Some row \<Rightarrow> d\<lparr>channels := (channels d)(cid \<mapsto> row\<lparr>moderation := modr\<rparr>)\<rparr>)"

definition set_reviewers_mode :: "chat_id \<Rightarrow> string \<Rightarrow> database \<Rightarrow> database" where
  "set_reviewers_mode cid m d =
     (case channels d cid of
        None \<Rightarrow> d
      | Some row \<Rightarrow> d\<lparr>channels := (channels d)(cid \<mapsto> row\<lparr>reviewers_mode := m\<rparr>)\<rparr>)"

text \<open>INSERT OR IGNORE on the composite key.\<close>

definition add_reviewer :: "chat_id \<Rightarrow> user_id \<Rightarrow> database \<Rightarrow> database" where
  "add_reviewer cid uid d =
     (if (cid, uid) \<in> set (channel_reviewers d) then d
      else d\<lparr>channel_reviewers := channel_reviewers d @ [(cid, uid)]\<rparr>)"

definition remove_reviewer :: "chat_id \<Rightarrow> user_id \<Rightarrow> database \<Rightarrow> database" where
  "remove_reviewer cid uid d =
     d\<lparr>channel_reviewers := filter (\<lambda>r. r \<noteq> (cid, uid)) (channel_reviewers d)\<rparr>"

definition list_reviewers :: "database \<Rightarrow> chat_id \<Rightarrow> user_id list" where
  "list_reviewers d cid = sort (map snd (filter (\<lambda>r. fst r = cid) (channel_reviewers d)))"

text \<open>INSERT OR REPLACE on the key \<open>code\<close>.\<close>

definition create_deeplink :: "string \<Rightarrow> chat_id \<Rightarrow> database \<Rightarrow> database" where
  "create_deeplink code cid d = d\<lparr>deeplinks := (deeplinks d)(code \<mapsto> cid)\<rparr>"

definition resolve_deeplink :: "database \<Rightarrow> string \<Rightarrow> chat_id option" where
  "resolve_deeplink d code = deeplinks d code"

subsection \<open>Submission helpers\<close>

text \<open>
  A staged content item, the dict \<open>{"content_type", "text", "file_id"}\<close> of the source
  (the key \<open>text\<close> is the field \<open>ptext\<close>).
\<close>

record pending =
  content_type :: string
  ptext :: "string option"
  file_id :: "string option"

text \<open>
  \<open>id INTEGER PRIMARY KEY AUTOINCREMENT\<close>: the new id is one more than the largest id
  the table has ever held, which SQLite tracks in \<open>sqlite_sequence\<close>.
\<close>

definition next_submission_id :: "database \<Rightarrow> int" where
  "next_submission_id d = fold max (map sub_id (submissions d)) (sqlite_sequence d) + 1"

definition create_submission ::
  "chat_id \<Rightarrow> user_id \<Rightarrow> string \<Rightarrow> string option \<Rightarrow> string option \<Rightarrow> string \<Rightarrow>
   database \<Rightarrow> int \<times> database" where
  "create_submission cid sender ctype txt fid st d =
     (let new_id = next_submission_id d in
      (new_id,
       d\<lparr>submissions := submissions d @
            [\<lparr>sub_id = new_id, sub_chat_id = cid, sender_user_id = sender,
              sub_content_type = ctype, sub_text = txt, sub_file_id = fid, status = st\<rparr>],
         sqlite_sequence := new_id\<rparr>))"

definition get_submission :: "database \<Rightarrow> int \<Rightarrow> submission_row option" where
  "get_submission d sid = find (\<lambda>r. sub_id r = sid) (submissions d)"

text \<open>\<open>UPDATE submissions SET status=? WHERE id=?\<close>: no condition on the old status.\<close>

definition set_submission_status :: "int \<Rightarrow> string \<Rightarrow> database \<Rightarrow> database" where
  "set_submission_status sid st d =
     d\<lparr>submissions := map (\<lambda>r. if sub_id r = sid then r\<lparr>status := st\<rparr> else r) (submissions d)\<rparr>"

section \<open>Text helpers\<close>

text \<open>
  A Python \<open>str\<close> is modelled by a \<open>string\<close> whose characters are the code points below 256.
  In that range \<open>str.isspace\<close> holds of 9-13, 28-32, 133 and 160, \<open>str.isdigit\<close> holds of
  the ASCII digits and of the superscripts 178, 179 and 185, and the regular expression
  class \<open>\d\<close> holds of the ASCII digits only.
\<close>

definition isspace :: "char \<Rightarrow> bool" where
  "isspace c = (let n = (of_char c :: nat) in
     (9 \<le> n \<and> n \<le> 13) \<or> (28 \<le> n \<and> n \<le> 32) \<or> n = 133 \<or> n = 160)"

definition ascii_digit :: "char \<Rightarrow> bool" where
  "ascii_digit c = (let n = (of_char c :: nat) in 48 \<le> n \<and> n \<le> 57)"

definition isdigit_char :: "char \<Rightarrow> bool" where
  "isdigit_char c = (let n = (of_char c :: nat) in
     ascii_digit c \<or> n = 178 \<or> n = 179 \<or> n = 185)"

definition strip :: "string \<Rightarrow> string" where
  "strip s = rev (dropWhile isspace (rev (dropWhile isspace s)))"

definition isdigit :: "string \<Rightarrow> bool" where
  "isdigit s = (s \<noteq> [] \<and> list_all isdigit_char s)"

definition startswith :: "string \<Rightarrow> string \<Rightarrow> bool" where
  "startswith s p = (take (length p) s = p)"

text \<open>The class \<open>[A-Za-z0-9_]\<close>.\<close>

definition word_char :: "char \<Rightarrow> bool" where
  "word_char c = (let n = (of_char c :: nat) in
     (65 \<le> n \<and> n \<le> 90) \<or> (97 \<le> n \<and> n \<le> 122) \<or> (48 \<le> n \<and> n \<le> 57) \<or> n = 95)"

text \<open>\<open>re.fullmatch(r"[A-Za-z0-9_]{5,}", s)\<close>\<close>

definition fullmatch_handle :: "string \<Rightarrow> bool" where
  "fullmatch_handle s = (5 \<le> length s \<and> list_all word_char s)"

definition normalize_channel_input :: "string \<Rightarrow> string" where
  "normalize_channel_input s0 =
     (let s = strip s0 in
      if startswith s ''@'' then s
      else if isdigit s \<or> (startswith s ''-'' \<and> isdigit (drop 1 s)) then s
      else if fullmatch_handle s then ''@'' @ s
      else s)"

text \<open>
  \<open>CHANNEL_INPUT_RE.match\<close> for \<open>^@?[A-Za-z0-9_]{5,}$|^-100\d{5,}$\<close>. The two alternatives
  are anchored at both ends; \<open>$\<close> also matches before one final newline.
\<close>

definition channel_re_body :: "string \<Rightarrow> bool" where
  "channel_re_body s =
     (fullmatch_handle (if startswith s ''@'' then drop 1 s else s) \<or>
      (startswith s ''-100'' \<and> 5 \<le> length (drop 4 s) \<and> list_all ascii_digit (drop 4 s)))"

definition CHANNEL_INPUT_RE_match :: "string \<Rightarrow> bool" where
  "CHANNEL_INPUT_RE_match s =
     (channel_re_body s \<or> (s \<noteq> [] \<and> last s = CHR 0x0A \<and> channel_re_body (butlast s)))"

text \<open>
  \<open>int(text)\<close> after \<open>text.isdigit()\<close>: the superscript digits are rejected with
  ValueError, and so is a literal of more than 4300 digits (the interpreter's limit on
  integer string conversion). \<open>None\<close> is the ValueError.
\<close>

definition py_int :: "string \<Rightarrow> int option" where
  "py_int s =
     (if s \<noteq> [] \<and> list_all ascii_digit s \<and> length s \<le> 4300
      then Some (foldl (\<lambda>acc c. 10 * acc + (int (of_char c) - 48)) 0 s)
      else None)"

section \<open>The messaging platform and the process state\<close>

text \<open>
  The Telegram client is an external collaborator. What it answers is a parameter: the
  record \<open>platform\<close> gives the result of each query and says which outgoing calls raise.
  A query result distinguishes the two exception classes that \<open>verify_bind\<close> catches
  (\<open>BadRequest\<close>, \<open>Forbidden\<close>: \<open>ApiError\<close>) from every other exception (\<open>OtherError\<close>).
\<close>

datatype member_status = OWNER | ADMINISTRATOR | MEMBER | RESTRICTED | LEFT | BANNED

datatype 'a api = Ok 'a | ApiError | OtherError

text \<open>The reason string that \<open>verify_bind\<close> returns, one constructor per literal.\<close>

datatype bind_reason =
    Cannot_get_channel
  | Cannot_check_bot
  | Bot_not_admin
  | Cannot_check_owner
  | Not_owner
  | Reason_OK

text \<open>
  The texts the bot sends. The literals of the source are Russian; each constructor stands
  for one literal (or one f-string, with the interpolated values as arguments), and
  \<open>Content\<close> carries text that came from a user. The interpolated exception text
  \<open>{e}\<close> and the inline keyboards are not modelled.
\<close>

datatype ui_text =
    Content string
  | POLICY_TEXT
  | Policy_render_error
  | No_access
  | Need_numeric_user_id
  | Reviewer_added int
  | Reviewer_removed int
  | Bad_format
  | Bind_failed bind_reason
  | Channel_bound chat_id "string option"
  | Channel_not_registered
  | Channel_selected
  | Empty_message
  | Confirm_sending
  | Press_start
  | Cancelled
  | Nothing_to_send
  | Channel_not_registered_by_owner
  | Sent_for_review
  | Message_sent
  | Cannot_send_to_channel
  | Ticket_header int string string
  | Submission_not_found
  | Already_processed
  | Approved_notice
  | Approved_and_published
  | Publish_error
  | Rejected_notice
  | Rejected
  | Link_text chat_id string
  | Ev_reviewer_added chat_id
  | Ev_reviewer_removed chat_id
  | Ev_channel_bound chat_id
  | Ev_queued chat_id int
  | Ev_sent_direct chat_id
  | Ev_send_error chat_id
  | Ev_approved chat_id int
  | Ev_publish_error chat_id int
  | Ev_rejected chat_id int
  | Ev_link chat_id
  | Event_note ui_text

datatype db_op =
    Op_upsert_channel chat_id
  | Op_add_reviewer chat_id user_id
  | Op_remove_reviewer chat_id user_id
  | Op_create_deeplink string chat_id
  | Op_create_submission int string
  | Op_set_submission_status int string

text \<open>
  What a handler does, in the order it does it: the calls it issues to the platform
  (\<open>q.answer\<close>, \<open>reply_text\<close>, \<open>q.edit_message_text\<close>, \<open>bot.send_message\<close>,
  \<open>bot.send_photo\<close> and its siblings, \<open>bot.get_me\<close>), the lines it logs, and its writes to
  the store. A call is recorded when it is issued, whether or not it then raises.
\<close>

datatype event =
    Answer
  | Answer_alert ui_text
  | Reply ui_text
  | Edit_message_text ui_text
  | Send_message int ui_text
  | Send_media string int "string option" "ui_text option"
  | Get_me
  | Log ui_text
  | Db_write db_op

record platform =
  bot_id :: user_id
  get_chat :: "string \<Rightarrow> (chat_id \<times> string option) api"
  get_chat_member :: "chat_id \<Rightarrow> user_id \<Rightarrow> member_status api"
  raises :: "event \<Rightarrow> bool"

record config =
  BOT_OWNER_ID :: int
  DEEPLINK_SALT :: string
  POLICY_HASH :: string

text \<open>The per-user dict of \<open>USER_STATE\<close>.\<close>

record ustate =
  mode :: "string option"
  selected_chat_id :: "chat_id option"
  pending :: "pending option"
  rv_chat_id :: "chat_id option"

definition default_ustate :: ustate where
  "default_ustate = \<lparr> mode = None, selected_chat_id = None, pending = None, rv_chat_id = None \<rparr>"

record world =
  db :: database
  USER_STATE :: "user_id \<rightharpoonup> ustate"
  trace :: "event list"

subsection \<open>Control flow: sequencing, exceptions\<close>

datatype 'a outcome = Returned 'a | Raised

type_synonym step = "world \<Rightarrow> unit outcome \<times> world"

definition skip :: step where
  "skip w = (Returned (), w)"

definition call :: "platform \<Rightarrow> event \<Rightarrow> step" where
  "call P e w = (if raises P e then Raised else Returned (), w\<lparr>trace := trace w @ [e]\<rparr>)"

definition emit :: "event \<Rightarrow> step" where
  "emit e w = (Returned (), w\<lparr>trace := trace w @ [e]\<rparr>)"

definition db_write :: "db_op \<Rightarrow> (database \<Rightarrow> database) \<Rightarrow> step" where
  "db_write op f w = (Returned (), w\<lparr>db := f (db w), trace := trace w @ [Db_write op]\<rparr>)"

definition state_do :: "(world \<Rightarrow> world) \<Rightarrow> step" where
  "state_do f w = (Returned (), f w)"

text \<open>Statements in sequence: the first one that raises ends the sequence.\<close>

fun run :: "step list \<Rightarrow> step" where
  "run [] w = (Returned (), w)"
| "run (f # fs) w = (case f w of (Returned _, w') \<Rightarrow> run fs w' | (Raised, w') \<Rightarrow> (Raised, w'))"

text \<open>\<open>try: body / except Exception: pass\<close>\<close>

definition try_pass :: "step \<Rightarrow> step" where
  "try_pass body w = (Returned (), snd (body w))"

text \<open>\<open>try: body / except Exception: handler\<close>\<close>

definition try_except :: "step \<Rightarrow> step \<Rightarrow> step" where
  "try_except body handler w =
     (case body w of (Returned _, w') \<Rightarrow> (Returned (), w') | (Raised, w') \<Rightarrow> handler w')"

text \<open>\<open>try: body / finally: fin\<close>\<close>

definition try_finally :: "step \<Rightarrow> step \<Rightarrow> step" where
  "try_finally body fin w =
     (case body w of (r, w') \<Rightarrow>
        (case fin w' of (Returned _, w'') \<Rightarrow> (r, w'') | (Raised, w'') \<Rightarrow> (Raised, w'')))"

subsection \<open>In-memory user state\<close>

text \<open>\<open>st(uid)\<close> is \<open>USER_STATE.setdefault(uid, {...})\<close>: it creates the entry when missing.\<close>

definition get_st :: "user_id \<Rightarrow> world \<Rightarrow> ustate" where
  "get_st uid w = (case USER_STATE w uid of None \<Rightarrow> default_ustate | Some s \<Rightarrow> s)"

definition st :: "user_id \<Rightarrow> world \<Rightarrow> world" where
  "st uid w = w\<lparr>USER_STATE := (USER_STATE w)(uid \<mapsto> get_st uid w)\<rparr>"

definition set_st :: "user_id \<Rightarrow> (ustate \<Rightarrow> ustate) \<Rightarrow> world \<Rightarrow> world" where
  "set_st uid f w = w\<lparr>USER_STATE := (USER_STATE w)(uid \<mapsto> f (get_st uid w))\<rparr>"

definition reset_send :: "user_id \<Rightarrow> world \<Rightarrow> world" where
  "reset_send uid w =
     set_st uid (\<lambda>s. s\<lparr>mode := None, selected_chat_id := None, pending := None\<rparr>) w"

text \<open>Truth value of an optional integer: \<open>None\<close> and \<open>0\<close> are false.\<close>

definition truthy :: "int option \<Rightarrow> bool" where
  "truthy x = (case x of None \<Rightarrow> False | Some n \<Rightarrow> n \<noteq> 0)"

section \<open>Event log and consent gate\<close>

definition event_log :: "config \<Rightarrow> platform \<Rightarrow> ui_text \<Rightarrow> step" where
  "event_log cfg P t =
     run [emit (Log t),
          if BOT_OWNER_ID cfg \<noteq> 0
          then try_pass (call P (Send_message (BOT_OWNER_ID cfg) (Event_note t)))
          else skip]"

text \<open>
  \<open>ensure_consent_or_show\<close>. The handlers modelled here are registered for messages and
  callback queries, which carry a user and a message to reply to; a user id of \<open>0\<close> is
  the false case of \<open>if not uid\<close>.
\<close>

definition ensure_consent_or_show ::
  "config \<Rightarrow> platform \<Rightarrow> user_id \<Rightarrow> world \<Rightarrow> bool outcome \<times> world" where
  "ensure_consent_or_show cfg P uid w =
     (if uid = 0 then (Returned False, w)
      else if user_is_allowed (POLICY_HASH cfg) (db w) uid then (Returned True, w)
      else (case try_except (call P (Reply POLICY_TEXT)) (call P (Reply Policy_render_error)) w of
              (Returned _, w') \<Rightarrow> (Returned False, w')
            | (Raised, w') \<Rightarrow> (Raised, w')))"

text \<open>The first statement of every gated handler: \<open>if not await ensure_consent_or_show(...): return\<close>.\<close>

definition gated :: "config \<Rightarrow> platform \<Rightarrow> user_id \<Rightarrow> step \<Rightarrow> step" where
  "gated cfg P uid body w =
     (case ensure_consent_or_show cfg P uid w of
        (Returned True, w') \<Rightarrow> body w'
      | (Returned False, w') \<Rightarrow> (Returned (), w')
      | (Raised, w') \<Rightarrow> (Raised, w'))"

section \<open>Permissions\<close>

definition verify_bind ::
  "platform \<Rightarrow> string \<Rightarrow> user_id \<Rightarrow>
   (bool \<times> bind_reason \<times> chat_id option \<times> string option) outcome" where
  "verify_bind P channel_input uid =
     (case get_chat P channel_input of
        ApiError \<Rightarrow> Returned (False, Cannot_get_channel, None, None)
      | OtherError \<Rightarrow> Raised
      | Ok (cid, uname) \<Rightarrow>
          (case get_chat_member P cid (bot_id P) of
             ApiError \<Rightarrow> Returned (False, Cannot_check_bot, None, None)
           | OtherError \<Rightarrow> Raised
           | Ok bot_member \<Rightarrow>
               if bot_member \<noteq> ADMINISTRATOR
               then Returned (False, Bot_not_admin, None, None)
               else (case get_chat_member P cid uid of
                       ApiError \<Rightarrow> Returned (False, Cannot_check_owner, None, None)
                     | OtherError \<Rightarrow> Raised
                     | Ok user_member \<Rightarrow>
                         if user_member \<noteq> OWNER
                         then Returned (False, Not_owner, None, None)
                         else Returned (True, Reason_OK, Some cid, uname))))"

text \<open>\<open>ensure_registered_channel\<close> catches every exception.\<close>

definition ensure_registered_channel :: "platform \<Rightarrow> database \<Rightarrow> string \<Rightarrow> chat_id option" where
  "ensure_registered_channel P d channel_input =
     (case get_chat P channel_input of
        Ok (cid, uname) \<Rightarrow>
          (case get_channel_by_chat_id d cid of None \<Rightarrow> None | Some row \<Rightarrow> Some cid)
      | ApiError \<Rightarrow> None
      | OtherError \<Rightarrow> None)"

definition can_moderate :: "platform \<Rightarrow> database \<Rightarrow> chat_id \<Rightarrow> user_id \<Rightarrow> bool" where
  "can_moderate P d cid uid =
     (case get_channel_by_chat_id d cid of
        None \<Rightarrow> False
      | Some row \<Rightarrow>
          if uid = owner_user_id row then True
          else if reviewers_mode row = ''owner'' then False
          else if reviewers_mode row = ''selected'' then uid \<in> set (list_reviewers d cid)
          else if reviewers_mode row = ''admins'' then
            (case get_chat_member P cid uid of
               Ok m \<Rightarrow> m = ADMINISTRATOR \<or> m = OWNER
             | ApiError \<Rightarrow> False
             | OtherError \<Rightarrow> False)
          else False)"

section \<open>Core actions\<close>

text \<open>
  \<open>post_to_channel\<close> chooses one bot method and its arguments from the content type and
  awaits it: \<open>publish_call\<close> is the call chosen.
\<close>

definition publish_call :: "chat_id \<Rightarrow> pending \<Rightarrow> event" where
  "publish_call cid p =
     (let ctype = content_type p;
          t = strip (case ptext p of None \<Rightarrow> [] | Some x \<Rightarrow> x);
          fid = file_id p;
          caption = (if t \<noteq> [] then Some (Content t) else None)
      in if ctype = ''text'' then Send_message cid (Content t)
         else if ctype = ''photo'' then Send_media ''photo'' cid fid caption
         else if ctype = ''video'' then Send_media ''video'' cid fid caption
         else if ctype = ''document'' then Send_media ''document'' cid fid caption
         else if ctype = ''audio'' then Send_media ''audio'' cid fid caption
         else if ctype = ''voice'' then Send_media ''voice'' cid fid caption
         else Send_message cid (Content t))"

definition post_to_channel :: "platform \<Rightarrow> chat_id \<Rightarrow> pending \<Rightarrow> step" where
  "post_to_channel P cid p = call P (publish_call cid p)"

definition send_ticket_to_owner :: "platform \<Rightarrow> user_id \<Rightarrow> int \<Rightarrow> pending \<Rightarrow> step" where
  "send_ticket_to_owner P owner sid p =
     (let text_preview = strip (case ptext p of None \<Rightarrow> [] | Some x \<Rightarrow> x);
          ctype = content_type p;
          header = Ticket_header sid ctype text_preview
      in try_pass
           (if ctype = ''text'' then call P (Send_message owner header)
            else if ctype = ''photo'' then call P (Send_media ''photo'' owner (file_id p) (Some header))
            else if ctype = ''video'' then call P (Send_media ''video'' owner (file_id p) (Some header))
            else if ctype = ''document'' then call P (Send_media ''document'' owner (file_id p) (Some header))
            else if ctype = ''audio'' then call P (Send_media ''audio'' owner (file_id p) (Some header))
            else if ctype = ''voice'' then call P (Send_media ''voice'' owner (file_id p) (Some header))
            else call P (Send_message owner header)))"

section \<open>Handlers\<close>

subsection \<open>\<open>on_text\<close>\<close>

text \<open>The branch for the modes \<open>rv_add_wait\<close> and \<open>rv_del_wait\<close>.\<close>

definition on_text_reviewers :: "config \<Rightarrow> platform \<Rightarrow> user_id \<Rightarrow> string \<Rightarrow> step" where
  "on_text_reviewers cfg P uid t w =
     (let s = get_st uid w;
          cid = (case rv_chat_id s of None \<Rightarrow> 0 | Some c \<Rightarrow> c);
          leave = state_do (set_st uid (\<lambda>s. s\<lparr>mode := None, rv_chat_id := None\<rparr>));
          denied = run [call P (Reply No_access), leave]
      in case get_channel_by_chat_id (db w) cid of
           None \<Rightarrow> denied w
         | Some row \<Rightarrow>
             if owner_user_id row \<noteq> uid then denied w
             else if \<not> isdigit t then call P (Reply Need_numeric_user_id) w
             else (case py_int t of
                     None \<Rightarrow> (Raised, w)
                   | Some target \<Rightarrow>
                       if mode s = Some ''rv_add_wait''
                       then run [db_write (Op_add_reviewer cid target) (add_reviewer cid target),
                                 call P (Reply (Reviewer_added target)),
                                 event_log cfg P (Ev_reviewer_added cid),
                                 leave] w
                       else run [db_write (Op_remove_reviewer cid target) (remove_reviewer cid target),
                                 call P (Reply (Reviewer_removed target)),
                                 event_log cfg P (Ev_reviewer_removed cid),
                                 leave] w))"

text \<open>
  The bind flow, mode \<open>ctl_bind_wait\<close>. \<open>verify_bind\<close> returns a chat id whenever it returns
  \<open>ok\<close>, so the case of \<open>ok\<close> without a chat id is never taken.
\<close>

definition on_text_bind :: "config \<Rightarrow> platform \<Rightarrow> user_id \<Rightarrow> string \<Rightarrow> step" where
  "on_text_bind cfg P uid t w =
     (let channel_in = normalize_channel_input t
      in if \<not> CHANNEL_INPUT_RE_match channel_in then call P (Reply Bad_format) w
         else (case verify_bind P channel_in uid of
                 Raised \<Rightarrow> (Raised, w)
               | Returned (ok, reason, chat, uname) \<Rightarrow>
                   if \<not> ok then call P (Reply (Bind_failed reason)) w
                   else (case chat of
                           None \<Rightarrow> (Raised, w)
                         | Some cid \<Rightarrow>
                             run [db_write (Op_upsert_channel cid) (upsert_channel cid uname uid 1),
                                  state_do (set_st uid (\<lambda>s. s\<lparr>mode := None\<rparr>)),
                                  call P (Reply (Channel_bound cid uname)),
                                  event_log cfg P (Ev_channel_bound cid)] w)))"

text \<open>Picking the channel to send to, mode \<open>send_pick_channel\<close>.\<close>

definition on_text_pick :: "platform \<Rightarrow> user_id \<Rightarrow> string \<Rightarrow> step" where
  "on_text_pick P uid t w =
     (let channel_in = normalize_channel_input t
      in if \<not> CHANNEL_INPUT_RE_match channel_in then call P (Reply Bad_format) w
         else (let registered_chat_id = ensure_registered_channel P (db w) channel_in
               in if \<not> truthy registered_chat_id then call P (Reply Channel_not_registered) w
                  else run [state_do (set_st uid (\<lambda>s. s\<lparr>selected_chat_id := registered_chat_id,
                                                          mode := Some ''send_wait_content''\<rparr>)),
                            call P (Reply Channel_selected)] w))"

text \<open>Text typed while a channel is selected is staged as content.\<close>

definition on_text_content :: "platform \<Rightarrow> user_id \<Rightarrow> string \<Rightarrow> step" where
  "on_text_content P uid t w =
     (if length t < 1 then call P (Reply Empty_message) w
      else run [state_do (set_st uid (\<lambda>s. s\<lparr>pending := Some \<lparr>content_type = ''text'', ptext = Some t,
                                                               file_id = None\<rparr>,
                                              mode := Some ''send_wait_content''\<rparr>)),
                call P (Reply Confirm_sending)] w)"

definition on_text :: "config \<Rightarrow> platform \<Rightarrow> user_id \<Rightarrow> string \<Rightarrow> step" where
  "on_text cfg P uid message_text =
     gated cfg P uid (\<lambda>w0.
       let w = st uid w0;
           s = get_st uid w;
           t = strip message_text
       in if mode s = Some ''rv_add_wait'' \<or> mode s = Some ''rv_del_wait''
          then on_text_reviewers cfg P uid t w
          else if mode s = Some ''ctl_bind_wait'' then on_text_bind cfg P uid t w
          else if mode s = Some ''send_pick_channel'' then on_text_pick P uid t w
          else if truthy (selected_chat_id s) \<and>
                  (mode s = None \<or> mode s = Some ''send_wait_content'')
          then on_text_content P uid t w
          else call P (Reply Press_start) w)"

subsection \<open>\<open>on_send_buttons\<close>\<close>

text \<open>The moderated path: the submission is queued as pending and a ticket goes to the owner.\<close>

definition send_for_review ::
  "config \<Rightarrow> platform \<Rightarrow> user_id \<Rightarrow> chat_id \<Rightarrow> pending \<Rightarrow> user_id \<Rightarrow> step" where
  "send_for_review cfg P uid cid p owner w =
     (let sid = next_submission_id (db w)
      in run [db_write (Op_create_submission sid STATUS_PENDING)
                (\<lambda>d. snd (create_submission cid uid (content_type p) (ptext p) (file_id p)
                              STATUS_PENDING d)),
              call P (Edit_message_text Sent_for_review),
              send_ticket_to_owner P owner sid p,
              event_log cfg P (Ev_queued cid sid),
              state_do (reset_send uid)] w)"

text \<open>The direct path: \<open>try / except Exception / finally\<close>.\<close>

definition direct_post :: "config \<Rightarrow> platform \<Rightarrow> user_id \<Rightarrow> chat_id \<Rightarrow> pending \<Rightarrow> step" where
  "direct_post cfg P uid cid p =
     try_finally
       (try_except
          (run [post_to_channel P cid p,
                (\<lambda>w. db_write (Op_create_submission (next_submission_id (db w)) STATUS_SENT)
                        (\<lambda>d. snd (create_submission cid uid (content_type p) (ptext p) (file_id p)
                                      STATUS_SENT d)) w),
                call P (Edit_message_text Message_sent),
                event_log cfg P (Ev_sent_direct cid)])
          (run [call P (Edit_message_text Cannot_send_to_channel),
                event_log cfg P (Ev_send_error cid)]))
       (state_do (reset_send uid))"

definition on_send_buttons :: "config \<Rightarrow> platform \<Rightarrow> user_id \<Rightarrow> string \<Rightarrow> step" where
  "on_send_buttons cfg P uid data =
     gated cfg P uid (\<lambda>w0.
       case call P Answer w0 of
         (Raised, w1) \<Rightarrow> (Raised, w1)
       | (Returned _, w1) \<Rightarrow>
           (let w = st uid w1 in
            if data = ''send_cancel''
            then run [state_do (reset_send uid), call P (Edit_message_text Cancelled)] w
            else if data \<noteq> ''send_confirm'' then (Returned (), w)
            else (let s = get_st uid w in
                  case (selected_chat_id s, pending s) of
                    (Some cid, Some p) \<Rightarrow>
                      if cid = 0
                      then run [call P (Edit_message_text Nothing_to_send),
                                state_do (reset_send uid)] w
                      else (case get_channel_by_chat_id (db w) cid of
                              None \<Rightarrow>
                                run [call P (Edit_message_text Channel_not_registered_by_owner),
                                     state_do (reset_send uid)] w
                            | Some row \<Rightarrow>
                                if moderation row = 1
                                then send_for_review cfg P uid cid p (owner_user_id row) w
                                else direct_post cfg P uid cid p w)
                  | _ \<Rightarrow> run [call P (Edit_message_text Nothing_to_send),
                               state_do (reset_send uid)] w)))"

subsection \<open>\<open>on_moderation\<close>\<close>

text \<open>
  The callback data of a ticket button is \<open>mod_ok:<id>\<close> or \<open>mod_no:<id>\<close>, built by
  \<open>ticket_kb\<close> from the integer id; the handler is registered for these two prefixes only.
\<close>

datatype mod_data = Mod_ok int | Mod_no int

fun mod_sub_id :: "mod_data \<Rightarrow> int" where
  "mod_sub_id (Mod_ok n) = n"
| "mod_sub_id (Mod_no n) = n"

fun is_mod_ok :: "mod_data \<Rightarrow> bool" where
  "is_mod_ok (Mod_ok n) = True"
| "is_mod_ok (Mod_no n) = False"

definition approve :: "config \<Rightarrow> platform \<Rightarrow> submission_row \<Rightarrow> step" where
  "approve cfg P row =
     (let sid = sub_id row; cid = sub_chat_id row; sender = sender_user_id row;
          p = \<lparr>content_type = sub_content_type row, ptext = sub_text row,
               file_id = sub_file_id row\<rparr>
      in run [try_pass (call P (Send_message sender Approved_notice)),
              try_except
                (run [post_to_channel P cid p,
                      db_write (Op_set_submission_status sid STATUS_SENT)
                        (set_submission_status sid STATUS_SENT),
                      try_pass (call P (Send_message sender Message_sent)),
                      call P (Edit_message_text Approved_and_published),
                      event_log cfg P (Ev_approved cid sid)])
                (run [call P (Edit_message_text Publish_error),
                      event_log cfg P (Ev_publish_error cid sid)])])"

definition reject :: "config \<Rightarrow> platform \<Rightarrow> submission_row \<Rightarrow> step" where
  "reject cfg P row =
     (let sid = sub_id row; cid = sub_chat_id row; sender = sender_user_id row
      in run [db_write (Op_set_submission_status sid STATUS_REJECTED)
                (set_submission_status sid STATUS_REJECTED),
              try_pass (call P (Send_message sender Rejected_notice)),
              call P (Edit_message_text Rejected),
              event_log cfg P (Ev_rejected cid sid)])"

definition on_moderation :: "config \<Rightarrow> platform \<Rightarrow> user_id \<Rightarrow> mod_data \<Rightarrow> step" where
  "on_moderation cfg P uid data =
     gated cfg P uid (\<lambda>w0.
       case call P Answer w0 of
         (Raised, w) \<Rightarrow> (Raised, w)
       | (Returned _, w) \<Rightarrow>
           (case get_submission (db w) (mod_sub_id data) of
              None \<Rightarrow> call P (Edit_message_text Submission_not_found) w
            | Some row \<Rightarrow>
                if status row \<noteq> STATUS_PENDING
                then call P (Edit_message_text Already_processed) w
                else if \<not> can_moderate P (db w) (sub_chat_id row) uid
                then call P (Edit_message_text No_access) w
                else if is_mod_ok data then approve cfg P row w
                else reject cfg P row w))"

section \<open>Deeplink codes\<close>

text \<open>
  \<open>make_code_for_chat\<close> formats the chat id in decimal, appends \<open>:\<close> and the salt, encodes
  the text as UTF-8, hashes it with SHA-256, encodes the digest in base32, strips the
  padding and keeps 20 characters. SHA-256 comes from the standard library and is a
  parameter here (a function from bytes to bytes); the other steps are written out.
\<close>

fun str_nat :: "nat \<Rightarrow> string" where
  "str_nat n =
     (if n < 10 then [char_of (48 + n)]
      else str_nat (n div 10) @ [char_of (48 + n mod 10)])"

definition str_int :: "int \<Rightarrow> string" where
  "str_int i = (if i < 0 then ''-'' @ str_nat (nat (- i)) else str_nat (nat i))"

definition utf8_char :: "char \<Rightarrow> string" where
  "utf8_char c =
     (let n = (of_char c :: nat)
      in if n < 128 then [c] else [char_of (192 + n div 64), char_of (128 + n mod 64)])"

definition encode_utf8 :: "string \<Rightarrow> string" where
  "encode_utf8 s = concat (map utf8_char s)"

definition byte_bits :: "char \<Rightarrow> bool list" where
  "byte_bits c = map (\<lambda>i. bit (of_char c :: nat) i) [7, 6, 5, 4, 3, 2, 1, 0]"

fun groups5 :: "bool list \<Rightarrow> bool list list" where
  "groups5 [] = []"
| "groups5 (b # bs) = take 5 (b # bs @ replicate 4 False) # groups5 (drop 4 bs)"

definition group_value :: "bool list \<Rightarrow> nat" where
  "group_value g = foldl (\<lambda>acc b. 2 * acc + (if b then 1 else 0)) 0 g"

definition b32_alphabet :: string where
  "b32_alphabet = ''ABCDEFGHIJKLMNOPQRSTUVWXYZ234567''"

definition b32encode :: "string \<Rightarrow> string" where
  "b32encode bs =
     (let cs = map (\<lambda>g. b32_alphabet ! group_value g) (groups5 (concat (map byte_bits bs)))
      in cs @ replicate ((8 - length cs mod 8) mod 8) (CHR ''=''))"

definition rstrip_eq :: "string \<Rightarrow> string" where
  "rstrip_eq s = rev (dropWhile (\<lambda>c. c = CHR ''='') (rev s))"

definition make_code_for_chat :: "(string \<Rightarrow> string) \<Rightarrow> string \<Rightarrow> chat_id \<Rightarrow> string" where
  "make_code_for_chat sha256 salt cid =
     (let raw = encode_utf8 (str_int cid @ '':'' @ salt);
          digest = sha256 raw;
          b32 = rstrip_eq (b32encode digest)
      in take 20 b32)"

text \<open>The branch \<open>ch_link:<chat_id>\<close> of \<open>on_menu\<close>, which issues the link of a channel.\<close>

definition on_menu_ch_link ::
  "(string \<Rightarrow> string) \<Rightarrow> config \<Rightarrow> platform \<Rightarrow> user_id \<Rightarrow> chat_id \<Rightarrow> step" where
  "on_menu_ch_link sha256 cfg P uid cid =
     gated cfg P uid (\<lambda>w0.
       case call P Answer w0 of
         (Raised, w) \<Rightarrow> (Raised, w)
       | (Returned _, w) \<Rightarrow>
           (case get_channel_by_chat_id (db w) cid of
              None \<Rightarrow> call P (Answer_alert No_access) w
            | Some row \<Rightarrow>
                if owner_user_id row \<noteq> uid then call P (Answer_alert No_access) w
                else (let code = make_code_for_chat sha256 (DEEPLINK_SALT cfg) cid
                      in run [db_write (Op_create_deeplink code cid) (create_deeplink code cid),
                              call P Get_me,
                              call P (Edit_message_text (Link_text cid code)),
                              event_log cfg P (Ev_link cid)] w)))"

text \<open>Issuing the links of several channels in turn, as successive \<open>ch_link\<close> requests do.\<close>

fun issue_links :: "(string \<Rightarrow> string) \<Rightarrow> string \<Rightarrow> chat_id list \<Rightarrow> database \<Rightarrow> database" where
  "issue_links sha256 salt [] d = d"
| "issue_links sha256 salt (cid # cids) d =
     issue_links sha256 salt cids (create_deeplink (make_code_for_chat sha256 salt cid) cid d)"

section \<open>Notions used to state the properties\<close>

text \<open>The events that \<open>event_log\<close> leaves in the trace; the send to the bot owner is guarded.\<close>

definition event_log_events :: "config \<Rightarrow> ui_text \<Rightarrow> event list" where
  "event_log_events cfg t =
     Log t # (if BOT_OWNER_ID cfg \<noteq> 0 then [Send_message (BOT_OWNER_ID cfg) (Event_note t)] else [])"

text \<open>A call that sends something to a chat or a user.\<close>

fun is_send :: "event \<Rightarrow> bool" where
  "is_send (Send_message c t) = True"
| "is_send (Send_media k c f t) = True"
| "is_send e = False"

text \<open>
  A call that carries user content: a message whose text is content, or a media message
  whose caption is content or absent. Tickets and notices carry texts of the bot.
\<close>

fun carries_content :: "event \<Rightarrow> bool" where
  "carries_content (Send_message c (Content t)) = True"
| "carries_content (Send_media k c f None) = True"
| "carries_content (Send_media k c f (Some (Content t))) = True"
| "carries_content e = False"

text \<open>The stored status of a submission, if there is one with this id.\<close>

definition status_of :: "world \<Rightarrow> int \<Rightarrow> string option" where
  "status_of w sid = map_option status (get_submission (db w) sid)"

text \<open>
  The three checks of a bind request in the words of the specification: the reference
  resolves, the bot is an administrator of the channel, the requester is its owner.
\<close>

definition bind_checks_pass :: "platform \<Rightarrow> string \<Rightarrow> user_id \<Rightarrow> bool" where
  "bind_checks_pass P channel_input uid =
     (case get_chat P channel_input of
        Ok (cid, uname) \<Rightarrow>
          get_chat_member P cid (bot_id P) = Ok ADMINISTRATOR \<and>
          get_chat_member P cid uid = Ok OWNER
      | ApiError \<Rightarrow> False
      | OtherError \<Rightarrow> False)"

section \<open>Sample data for the concrete instances\<close>

definition sample_channel :: "string \<Rightarrow> int \<Rightarrow> channel_row" where
  "sample_channel m modr =
     \<lparr>username = Some ''relay_news'', owner_user_id = 10, moderation = modr, reviewers_mode = m\<rparr>"

definition sample_db :: "string \<Rightarrow> int \<Rightarrow> database" where
  "sample_db m modr =
     empty_db\<lparr>user_consents := [10 \<mapsto> (1, ''h1''), 11 \<mapsto> (1, ''h1''), 20 \<mapsto> (1, ''h1'')],
              channels := [-1001 \<mapsto> sample_channel m modr],
              channel_reviewers := [(-1001, 11)]\<rparr>"

text \<open>
  A platform on which no call raises: the channel \<open>@relay_news\<close> resolves to \<open>-1001\<close>, the
  bot (user 1) and user 11 are administrators, user 10 is the owner.
\<close>

definition sample_platform :: platform where
  "sample_platform =
     \<lparr>bot_id = 1,
      get_chat = (\<lambda>r. if r = ''@relay_news'' then Ok (-1001, Some ''relay_news'') else ApiError),
      get_chat_member = (\<lambda>c u. if c \<noteq> -1001 then ApiError
                               else if u = 10 then Ok OWNER
                               else if u = 1 \<or> u = 11 then Ok ADMINISTRATOR
                               else Ok MEMBER),
      raises = (\<lambda>e. False)\<rparr>"

definition sample_config :: config where
  "sample_config = \<lparr>BOT_OWNER_ID = 0, DEEPLINK_SALT = ''salt'', POLICY_HASH = ''h1''\<rparr>"

definition sample_row :: submission_row where
  "sample_row =
     \<lparr>sub_id = 1, sub_chat_id = -1001, sender_user_id = 20, sub_content_type = ''text'',
      sub_text = Some ''hello'', sub_file_id = None, status = ''pending''\<rparr>"

definition sample_world :: "string \<Rightarrow> int \<Rightarrow> world" where
  "sample_world m modr =
     \<lparr>db = (sample_db m modr)\<lparr>submissions := [sample_row], sqlite_sequence := 1\<rparr>,
      USER_STATE = Map.empty, trace = []\<rparr>"

definition failing_publish :: platform where
  "failing_publish = sample_platform\<lparr>raises := (\<lambda>e. e = Send_message (-1001) (Content ''hello''))\<rparr>"

definition waiting_world :: "database \<Rightarrow> world" where
  "waiting_world d =
     \<lparr>db = d,
      USER_STATE = [10 \<mapsto> default_ustate\<lparr>mode := Some ''ctl_bind_wait''\<rparr>,
                    11 \<mapsto> default_ustate\<lparr>mode := Some ''ctl_bind_wait''\<rparr>],
      trace = []\<rparr>"

definition staged_world :: world where
  "staged_world =
     \<lparr>db = sample_db ''owner'' 0,
      USER_STATE = [20 \<mapsto> default_ustate\<lparr>selected_chat_id := Some (-1001)\<rparr>],
      trace = []\<rparr>"

text \<open>A stand-in for the digest function in the concrete instances.\<close>

definition sample_digest :: "string \<Rightarrow> string" where
  "sample_digest bs = bs"

section \<open>Consent store\<close>

lemma get_user_consent_set:
  "get_user_consent (set_user_consent u a h d) uid =
     (if u = uid then Some (a, h) else get_user_consent d uid)"
  by (simp add: get_user_consent_def set_user_consent_def)

lemma get_user_consent_record_decisions:
  "get_user_consent (record_decisions ds d) uid =
     (case latest_decision ds uid of None \<Rightarrow> get_user_consent d uid | Some r \<Rightarrow> Some r)"
proof (induction ds arbitrary: d)
  case Nil
  show ?case by simp
next
  case (Cons x ds)
  obtain u a h where x: "x = (u, a, h)" by (cases x) auto
  show ?case
    by (simp add: x Cons.IH get_user_consent_set split: option.splits)
qed

lemma get_user_consent_empty_db: "get_user_consent empty_db uid = None"
  by (simp add: get_user_consent_def empty_db_def)

text \<open>
  C6. After any history of recorded decisions, a user is allowed exactly when the latest
  decision recorded for that user is an accept (\<open>accepted = 1\<close>) whose stored hash is the
  current policy hash; a user with no recorded decision is not allowed; and a user who is
  allowed under one policy hash is not allowed under any different one.
\<close>

theorem C6_user_is_allowed:
  "(user_is_allowed ph (record_decisions ds empty_db) uid \<longleftrightarrow>
      latest_decision ds uid = Some (1, ph)) \<and>
   (latest_decision ds uid = None \<longrightarrow> \<not> user_is_allowed ph (record_decisions ds empty_db) uid) \<and>
   (user_is_allowed ph d uid \<and> ph' \<noteq> ph \<longrightarrow> \<not> user_is_allowed ph' d uid)"
  by (auto simp: user_is_allowed_def get_user_consent_record_decisions
        get_user_consent_empty_db split: option.splits)

theorem C6_user_is_allowed_witness:
  "latest_decision [(7, 0, ''h1''), (7, 1, ''h1'')] 7 = Some (1, ''h1'') \<and>
   user_is_allowed ''h1'' (record_decisions [(7, 0, ''h1''), (7, 1, ''h1'')] empty_db) 7 \<and>
   latest_decision [(7, 0, ''h1''), (7, 1, ''h1'')] 8 = None \<and>
   \<not> user_is_allowed ''h1'' (record_decisions [(7, 0, ''h1''), (7, 1, ''h1'')] empty_db) 8 \<and>
   ''h2'' \<noteq> ''h1'' \<and>
   \<not> user_is_allowed ''h2'' (record_decisions [(7, 0, ''h1''), (7, 1, ''h1'')] empty_db) 7"
  using C6_user_is_allowed [of "''h1''" "[(7, 0, ''h1''), (7, 1, ''h1'')]" 7
           "record_decisions [(7, 0, ''h1''), (7, 1, ''h1'')] empty_db" "''h2''"]
        C6_user_is_allowed [of "''h1''" "[(7, 0, ''h1''), (7, 1, ''h1'')]" 8 empty_db "''h2''"]
  by simp

section \<open>Who may moderate\<close>

lemma in_list_reviewers:
  "uid \<in> set (list_reviewers d cid) \<longleftrightarrow> (cid, uid) \<in> set (channel_reviewers d)"
  by (force simp: list_reviewers_def)

text \<open>
  C5. For an unbound channel \<open>can_moderate\<close> is false. For a bound channel it is true for
  the owner whatever the reviewer mode; for any other user it is false in mode \<open>owner\<close>,
  in mode \<open>selected\<close> it is true exactly when the user is in the channel's reviewer list,
  and in mode \<open>admins\<close> it is true exactly when the platform, asked at that moment, reports
  the user as administrator or owner of the channel.
\<close>

theorem C5_can_moderate:
  "(get_channel_by_chat_id d cid = None \<longrightarrow> \<not> can_moderate P d cid uid) \<and>
   (\<forall>row. get_channel_by_chat_id d cid = Some row \<longrightarrow>
      (uid = owner_user_id row \<longrightarrow> can_moderate P d cid uid) \<and>
      (uid \<noteq> owner_user_id row \<longrightarrow>
         (reviewers_mode row = ''owner'' \<longrightarrow> \<not> can_moderate P d cid uid) \<and>
         (reviewers_mode row = ''selected'' \<longrightarrow>
            (can_moderate P d cid uid \<longleftrightarrow> (cid, uid) \<in> set (channel_reviewers d))) \<and>
         (reviewers_mode row = ''admins'' \<longrightarrow>
            (can_moderate P d cid uid \<longleftrightarrow>
               get_chat_member P cid uid = Ok ADMINISTRATOR \<or>
               get_chat_member P cid uid = Ok OWNER))))"
  by (auto simp: can_moderate_def in_list_reviewers split: option.splits api.splits)

theorem C5_can_moderate_witness:
  "get_channel_by_chat_id empty_db (-1001) = None \<and>
   \<not> can_moderate sample_platform empty_db (-1001) 10 \<and>
   get_channel_by_chat_id (sample_db ''owner'' 1) (-1001) = Some (sample_channel ''owner'' 1) \<and>
   can_moderate sample_platform (sample_db ''owner'' 1) (-1001) 10 \<and>
   \<not> can_moderate sample_platform (sample_db ''owner'' 1) (-1001) 11 \<and>
   can_moderate sample_platform (sample_db ''selected'' 1) (-1001) 11 \<and>
   \<not> can_moderate sample_platform (sample_db ''selected'' 1) (-1001) 20 \<and>
   can_moderate sample_platform (sample_db ''admins'' 1) (-1001) 11 \<and>
   \<not> can_moderate sample_platform (sample_db ''admins'' 1) (-1001) 20"
  using C5_can_moderate [of empty_db "-1001" sample_platform 10]
        C5_can_moderate [of "sample_db ''owner'' 1" "-1001" sample_platform 10]
        C5_can_moderate [of "sample_db ''owner'' 1" "-1001" sample_platform 11]
        C5_can_moderate [of "sample_db ''selected'' 1" "-1001" sample_platform 11]
        C5_can_moderate [of "sample_db ''selected'' 1" "-1001" sample_platform 20]
        C5_can_moderate [of "sample_db ''admins'' 1" "-1001" sample_platform 11]
        C5_can_moderate [of "sample_db ''admins'' 1" "-1001" sample_platform 20]
  by (simp add: get_channel_by_chat_id_def empty_db_def sample_db_def sample_channel_def
        sample_platform_def)

section \<open>Moderation decisions\<close>

lemma event_log_eq:
  "event_log cfg P t w = (Returned (), w\<lparr>trace := trace w @ event_log_events cfg t\<rparr>)"
  by (simp add: event_log_def event_log_events_def emit_def try_pass_def call_def skip_def)

lemma try_pass_call:
  "try_pass (call P e) w = (Returned (), w\<lparr>trace := trace w @ [e]\<rparr>)"
  by (simp add: try_pass_def call_def)

lemma approve_db:
  "db (snd (approve cfg P row w)) = db w \<or>
   (\<not> raises P (publish_call (sub_chat_id row)
        \<lparr>content_type = sub_content_type row, ptext = sub_text row, file_id = sub_file_id row\<rparr>) \<and>
    db (snd (approve cfg P row w)) = set_submission_status (sub_id row) STATUS_SENT (db w))"
  by (simp add: approve_def Let_def try_pass_call event_log_eq try_except_def post_to_channel_def
        call_def db_write_def)

lemma reject_db:
  "db (snd (reject cfg P row w)) = set_submission_status (sub_id row) STATUS_REJECTED (db w)"
  by (simp add: reject_def Let_def try_pass_call event_log_eq call_def db_write_def)

lemma gated_cases:
  "gated cfg P uid body w =
     (if uid \<noteq> 0 \<and> user_is_allowed (POLICY_HASH cfg) (db w) uid then body w
      else if uid = 0 then (Returned (), w)
      else if \<not> raises P (Reply POLICY_TEXT)
      then (Returned (), w\<lparr>trace := trace w @ [Reply POLICY_TEXT]\<rparr>)
      else (if raises P (Reply Policy_render_error) then Raised else Returned (),
            w\<lparr>trace := trace w @ [Reply POLICY_TEXT, Reply Policy_render_error]\<rparr>))"
  by (simp add: gated_def ensure_consent_or_show_def try_except_def call_def)


lemma get_submission_sub_id:
  "get_submission d sid = Some row \<Longrightarrow> sub_id row = sid"
  by (auto simp: get_submission_def find_Some_iff)

lemma find_set_status:
  "find (\<lambda>r. sub_id r = sid) (map (\<lambda>r. if sub_id r = sid then r\<lparr>status := s\<rparr> else r) xs) =
     map_option (\<lambda>r. r\<lparr>status := s\<rparr>) (find (\<lambda>r. sub_id r = sid) xs)"
  by (induction xs) auto

lemma get_submission_set_status:
  "get_submission (set_submission_status sid s d) sid =
     map_option (\<lambda>r. r\<lparr>status := s\<rparr>) (get_submission d sid)"
  by (simp add: get_submission_def set_submission_status_def find_set_status)

lemma on_moderation_db:
  "db (snd (on_moderation cfg P uid data w)) = db w \<or>
   (\<exists>row. get_submission (db w) (mod_sub_id data) = Some row \<and> status row = STATUS_PENDING \<and>
      (db (snd (on_moderation cfg P uid data w)) =
         set_submission_status (mod_sub_id data) STATUS_SENT (db w) \<or>
       db (snd (on_moderation cfg P uid data w)) =
         set_submission_status (mod_sub_id data) STATUS_REJECTED (db w)))"
proof (cases "uid \<noteq> 0 \<and> user_is_allowed (POLICY_HASH cfg) (db w) uid \<and> \<not> raises P Answer")
  case False
  then show ?thesis
    by (auto simp: on_moderation_def gated_cases call_def)
next
  case True
  let ?w = "w\<lparr>trace := trace w @ [Answer]\<rparr>"
  show ?thesis
  proof (cases "get_submission (db w) (mod_sub_id data)")
    case None
    with True show ?thesis
      by (simp add: on_moderation_def gated_cases call_def)
  next
    case (Some row)
    have sid: "sub_id row = mod_sub_id data"
      using Some by (rule get_submission_sub_id)
    show ?thesis
    proof (cases "status row = STATUS_PENDING \<and> can_moderate P (db w) (sub_chat_id row) uid")
      case False
      with True Some show ?thesis
        by (auto simp: on_moderation_def gated_cases call_def)
    next
      case ok: True
      show ?thesis
      proof (cases "is_mod_ok data")
        case True
        have "on_moderation cfg P uid data w = approve cfg P row ?w"
          using \<open>uid \<noteq> 0 \<and> _\<close> Some ok True
          by (simp add: on_moderation_def gated_cases call_def)
        then show ?thesis
          using approve_db [of cfg P row ?w] Some ok sid by auto
      next
        case False
        have "on_moderation cfg P uid data w = reject cfg P row ?w"
          using \<open>uid \<noteq> 0 \<and> _\<close> Some ok False
          by (simp add: on_moderation_def gated_cases call_def)
        then show ?thesis
          using reject_db [of cfg P row ?w] Some ok sid by auto
      qed
    qed
  qed
qed

lemma on_moderation_status:
  "status_of (snd (on_moderation cfg P uid data w)) (mod_sub_id data) = status_of w (mod_sub_id data) \<or>
   (status_of w (mod_sub_id data) = Some STATUS_PENDING \<and>
    (status_of (snd (on_moderation cfg P uid data w)) (mod_sub_id data) = Some STATUS_SENT \<or>
     status_of (snd (on_moderation cfg P uid data w)) (mod_sub_id data) = Some STATUS_REJECTED))"
  using on_moderation_db [of cfg P uid data w]
  by (auto simp: status_of_def get_submission_set_status)

lemma on_moderation_decided:
  assumes "status_of w (mod_sub_id data) \<noteq> None"
      and "status_of w (mod_sub_id data) \<noteq> Some STATUS_PENDING"
  shows "on_moderation cfg P uid data w =
           gated cfg P uid (run [call P Answer, call P (Edit_message_text Already_processed)]) w"
proof -
  obtain row where row: "get_submission (db w) (mod_sub_id data) = Some row"
    using assms(1) by (auto simp: status_of_def)
  then have "status row \<noteq> STATUS_PENDING"
    using assms(2) by (simp add: status_of_def)
  with row show ?thesis
    by (simp add: on_moderation_def gated_cases call_def)
qed

lemma decided_effects:
  "db (snd (gated cfg P uid (run [call P Answer, call P (Edit_message_text Already_processed)]) w)) = db w \<and>
   (\<exists>es. trace (snd (gated cfg P uid (run [call P Answer, call P (Edit_message_text Already_processed)]) w))
           = trace w @ es \<and> (\<forall>e \<in> set es. \<not> is_send e)) \<and>
   (uid \<noteq> 0 \<and> user_is_allowed (POLICY_HASH cfg) (db w) uid \<and> \<not> raises P Answer \<longrightarrow>
      trace (snd (gated cfg P uid (run [call P Answer, call P (Edit_message_text Already_processed)]) w))
        = trace w @ [Answer, Edit_message_text Already_processed])"
  by (simp add: gated_cases call_def)

lemmas eval_defs =
  on_moderation_def gated_def ensure_consent_or_show_def user_is_allowed_def
  get_user_consent_def call_def get_submission_def STATUS_PENDING_def STATUS_SENT_def
  STATUS_REJECTED_def can_moderate_def get_channel_by_chat_id_def approve_def reject_def
  Let_def try_pass_def try_except_def try_finally_def post_to_channel_def publish_call_def
  strip_def isspace_def db_write_def set_submission_status_def event_log_def emit_def skip_def
  sample_world_def sample_db_def sample_channel_def sample_platform_def sample_config_def
  sample_row_def empty_db_def status_of_def list_reviewers_def failing_publish_def
  state_do_def

text \<open>
  C1. Handlers run one at a time (the application is built without concurrent updates),
  so two decisions on the same submission are applied one after the other. At most one of
  them changes the stored status. If the first one changes it, it was \<open>pending\<close> before and
  is \<open>sent\<close> or \<open>rejected\<close> after; the later decision then leaves the store as it is and
  sends nothing to anyone (no publish, no notification of the sender); and when the later
  reviewer has passed the consent gate and the acknowledgement of the button press does not
  raise, what the later decision does is exactly: acknowledge, then report "already
  processed".
\<close>

theorem C1_decisions_exclusive:
  assumes "mod_sub_id d1 = sid" and "mod_sub_id d2 = sid"
  shows "let w1 = snd (on_moderation cfg P1 u1 d1 w);
             w2 = snd (on_moderation cfg P2 u2 d2 w1)
         in \<not> (status_of w1 sid \<noteq> status_of w sid \<and> status_of w2 sid \<noteq> status_of w1 sid) \<and>
            (status_of w1 sid \<noteq> status_of w sid \<longrightarrow>
               status_of w sid = Some STATUS_PENDING \<and>
               (status_of w1 sid = Some STATUS_SENT \<or> status_of w1 sid = Some STATUS_REJECTED) \<and>
               db w2 = db w1 \<and>
               (\<exists>es. trace w2 = trace w1 @ es \<and> (\<forall>e \<in> set es. \<not> is_send e)) \<and>
               (u2 \<noteq> 0 \<and> user_is_allowed (POLICY_HASH cfg) (db w1) u2 \<and> \<not> raises P2 Answer \<longrightarrow>
                  trace w2 = trace w1 @ [Answer, Edit_message_text Already_processed]))"
proof -
  define w1 where "w1 = snd (on_moderation cfg P1 u1 d1 w)"
  define w2 where "w2 = snd (on_moderation cfg P2 u2 d2 w1)"
  have first: "status_of w1 sid = status_of w sid \<or>
      (status_of w sid = Some STATUS_PENDING \<and>
       (status_of w1 sid = Some STATUS_SENT \<or> status_of w1 sid = Some STATUS_REJECTED))"
    using on_moderation_status [of cfg P1 u1 d1 w] assms(1) by (simp add: w1_def)
  have later: "db w2 = db w1 \<and>
      (\<exists>es. trace w2 = trace w1 @ es \<and> (\<forall>e \<in> set es. \<not> is_send e)) \<and>
      (u2 \<noteq> 0 \<and> user_is_allowed (POLICY_HASH cfg) (db w1) u2 \<and> \<not> raises P2 Answer \<longrightarrow>
         trace w2 = trace w1 @ [Answer, Edit_message_text Already_processed])"
    if changed: "status_of w1 sid \<noteq> status_of w sid"
  proof -
    from first changed
    have "status_of w1 sid = Some STATUS_SENT \<or> status_of w1 sid = Some STATUS_REJECTED"
      by blast
    then have "status_of w1 (mod_sub_id d2) \<noteq> None"
        and "status_of w1 (mod_sub_id d2) \<noteq> Some STATUS_PENDING"
      using assms(2)
      by (auto simp: STATUS_SENT_def STATUS_REJECTED_def STATUS_PENDING_def)
    then have "on_moderation cfg P2 u2 d2 w1 =
        gated cfg P2 u2 (run [call P2 Answer, call P2 (Edit_message_text Already_processed)]) w1"
      by (rule on_moderation_decided)
    then show ?thesis
      using decided_effects [of cfg P2 u2 w1] by (simp add: w2_def)
  qed
  have "status_of w2 sid = status_of w1 sid" if "status_of w1 sid \<noteq> status_of w sid"
    using later [OF that] by (simp add: status_of_def)
  with first later show ?thesis
    unfolding w1_def [symmetric] w2_def [symmetric] Let_def by blast
qed


theorem C1_decisions_exclusive_witness:
  "mod_sub_id (Mod_ok 1) = 1 \<and> mod_sub_id (Mod_no 1) = 1 \<and>
   status_of (sample_world ''admins'' 1) 1 = Some ''pending'' \<and>
   status_of (snd (on_moderation sample_config sample_platform 10 (Mod_ok 1)
                     (sample_world ''admins'' 1))) 1 = Some ''sent'' \<and>
   status_of (snd (on_moderation sample_config sample_platform 11 (Mod_no 1)
                (snd (on_moderation sample_config sample_platform 10 (Mod_ok 1)
                        (sample_world ''admins'' 1))))) 1 = Some ''sent'' \<and>
   trace (snd (on_moderation sample_config sample_platform 11 (Mod_no 1)
                (snd (on_moderation sample_config sample_platform 10 (Mod_ok 1)
                        (sample_world ''admins'' 1))))) =
     trace (snd (on_moderation sample_config sample_platform 10 (Mod_ok 1)
                   (sample_world ''admins'' 1))) @ [Answer, Edit_message_text Already_processed]"
proof -
  let ?w = "sample_world ''admins'' 1"
  let ?w1 = "snd (on_moderation sample_config sample_platform 10 (Mod_ok 1) ?w)"
  have a: "status_of ?w 1 = Some ''pending''"
    by (simp add: eval_defs)
  have b: "status_of ?w1 1 = Some ''sent''"
    by (simp add: eval_defs)
  have c: "user_is_allowed (POLICY_HASH sample_config) (db ?w1) 11"
    by (simp add: eval_defs)
  have d: "\<not> raises sample_platform Answer"
    by (simp add: sample_platform_def)
  let ?w2 = "snd (on_moderation sample_config sample_platform 11 (Mod_no 1) ?w1)"
  have changed: "status_of ?w1 1 \<noteq> status_of ?w 1"
    by (simp add: a b)
  have "db ?w2 = db ?w1 \<and> trace ?w2 = trace ?w1 @ [Answer, Edit_message_text Already_processed]"
    using C1_decisions_exclusive [of "Mod_ok 1" 1 "Mod_no 1" sample_config sample_platform 10 ?w
            sample_platform 11] changed c d
    unfolding Let_def by simp
  moreover from this have "status_of ?w2 1 = status_of ?w1 1"
    by (simp add: status_of_def)
  ultimately show ?thesis
    using a b by simp
qed

text \<open>
  C3. A reviewer who may moderate approves a pending submission, and the publish call
  raises. Then the store is unchanged, the submission is still \<open>pending\<close>, and the calls
  issued are: the acknowledgement, the approval notice to the sender, the failed publish
  call, and the report of the publish error to the reviewer (followed by the event log
  entry when that report itself does not raise). No status write occurs.
\<close>

theorem C3_publish_failure_keeps_pending:
  assumes "uid \<noteq> 0" and "user_is_allowed (POLICY_HASH cfg) (db w) uid"
      and "\<not> raises P Answer"
      and "get_submission (db w) sid = Some row"
      and "status row = STATUS_PENDING"
      and "can_moderate P (db w) (sub_chat_id row) uid"
      and "raises P (publish_call (sub_chat_id row)
             \<lparr>content_type = sub_content_type row, ptext = sub_text row,
              file_id = sub_file_id row\<rparr>)"
  shows "db (snd (on_moderation cfg P uid (Mod_ok sid) w)) = db w \<and>
         status_of (snd (on_moderation cfg P uid (Mod_ok sid) w)) sid = Some STATUS_PENDING \<and>
         trace (snd (on_moderation cfg P uid (Mod_ok sid) w)) =
           trace w @
           [Answer,
            Send_message (sender_user_id row) Approved_notice,
            publish_call (sub_chat_id row)
              \<lparr>content_type = sub_content_type row, ptext = sub_text row,
               file_id = sub_file_id row\<rparr>,
            Edit_message_text Publish_error] @
           (if raises P (Edit_message_text Publish_error) then []
            else event_log_events cfg (Ev_publish_error (sub_chat_id row) sid))"
proof -
  let ?w = "w\<lparr>trace := trace w @ [Answer]\<rparr>"
  have sid: "sub_id row = sid"
    using assms(4) by (rule get_submission_sub_id)
  have "on_moderation cfg P uid (Mod_ok sid) w = approve cfg P row ?w"
    using assms by (simp add: on_moderation_def gated_cases call_def)
  moreover have "snd (approve cfg P row ?w) =
      w\<lparr>trace := trace w @
           [Answer,
            Send_message (sender_user_id row) Approved_notice,
            publish_call (sub_chat_id row)
              \<lparr>content_type = sub_content_type row, ptext = sub_text row,
               file_id = sub_file_id row\<rparr>,
            Edit_message_text Publish_error] @
           (if raises P (Edit_message_text Publish_error) then []
            else event_log_events cfg (Ev_publish_error (sub_chat_id row) sid))\<rparr>"
    using assms(7)
    by (simp add: approve_def Let_def try_pass_call event_log_eq try_except_def
          post_to_channel_def call_def sid)
  ultimately show ?thesis
    using assms(4,5) by (simp add: status_of_def)
qed

theorem C3_publish_failure_keeps_pending_witness:
  "status_of (snd (on_moderation sample_config failing_publish 10 (Mod_ok 1)
                     (sample_world ''owner'' 1))) 1 = Some ''pending'' \<and>
   trace (snd (on_moderation sample_config failing_publish 10 (Mod_ok 1)
                 (sample_world ''owner'' 1))) =
     [Answer, Send_message 20 Approved_notice, Send_message (-1001) (Content ''hello''),
      Edit_message_text Publish_error, Log (Ev_publish_error (-1001) 1)]"
proof -
  let ?w = "sample_world ''owner'' 1"
  have a: "user_is_allowed (POLICY_HASH sample_config) (db ?w) 10"
    by (simp add: eval_defs)
  have b: "\<not> raises failing_publish Answer"
    by (simp add: failing_publish_def)
  have c: "get_submission (db ?w) 1 = Some sample_row"
    by (simp add: eval_defs)
  have d: "status sample_row = STATUS_PENDING"
    by (simp add: eval_defs)
  have e: "can_moderate failing_publish (db ?w) (sub_chat_id sample_row) 10"
    by (simp add: eval_defs)
  have f: "raises failing_publish (publish_call (sub_chat_id sample_row)
             \<lparr>content_type = sub_content_type sample_row, ptext = sub_text sample_row,
              file_id = sub_file_id sample_row\<rparr>)"
    by (simp add: eval_defs)
  have g: "(10::int) \<noteq> 0" by simp
  show ?thesis
    using C3_publish_failure_keeps_pending [OF g a b c d e f]
    by (simp add: eval_defs event_log_events_def)
qed

text \<open>
  C2, as stated, fails: on approval the sender is sent a notice before the content is
  published. The owner (user 10) approves the pending text submission 1 of user 20 on a
  platform where no call raises; the calls and writes are, in order:
\<close>

theorem C2_notice_precedes_publish:
  "trace (snd (on_moderation sample_config sample_platform 10 (Mod_ok 1)
                 (sample_world ''owner'' 1))) =
     [Answer,
      Send_message 20 Approved_notice,
      Send_message (-1001) (Content ''hello''),
      Db_write (Op_set_submission_status 1 ''sent''),
      Send_message 20 Message_sent,
      Edit_message_text Approved_and_published,
      Log (Ev_approved (-1001) 1)]"
  by (simp add: eval_defs)

text \<open>
  C2, amended. A reviewer who may moderate decides on a pending submission. On approve,
  when the publish call does not raise, the steps are in this order: the approval notice
  is sent to the sender, the content is published to the channel, the status is written as
  \<open>sent\<close>, the sender is notified that the message was sent, and the reviewer's message is
  edited. On reject: the status is written as \<open>rejected\<close>, the sender is notified, and the
  reviewer's message is edited.
\<close>

theorem C2_decision_order:
  assumes "uid \<noteq> 0" and "user_is_allowed (POLICY_HASH cfg) (db w) uid"
      and "\<not> raises P Answer"
      and "get_submission (db w) sid = Some row"
      and "status row = STATUS_PENDING"
      and "can_moderate P (db w) (sub_chat_id row) uid"
  shows "(\<not> raises P (publish_call (sub_chat_id row)
               \<lparr>content_type = sub_content_type row, ptext = sub_text row,
                file_id = sub_file_id row\<rparr>) \<longrightarrow>
            status_of (snd (on_moderation cfg P uid (Mod_ok sid) w)) sid = Some STATUS_SENT \<and>
            (\<exists>es. trace (snd (on_moderation cfg P uid (Mod_ok sid) w)) =
               trace w @
               [Answer,
                Send_message (sender_user_id row) Approved_notice,
                publish_call (sub_chat_id row)
                  \<lparr>content_type = sub_content_type row, ptext = sub_text row,
                   file_id = sub_file_id row\<rparr>,
                Db_write (Op_set_submission_status sid STATUS_SENT),
                Send_message (sender_user_id row) Message_sent,
                Edit_message_text Approved_and_published] @ es)) \<and>
         status_of (snd (on_moderation cfg P uid (Mod_no sid) w)) sid = Some STATUS_REJECTED \<and>
         (\<exists>es. trace (snd (on_moderation cfg P uid (Mod_no sid) w)) =
            trace w @
            [Answer,
             Db_write (Op_set_submission_status sid STATUS_REJECTED),
             Send_message (sender_user_id row) Rejected_notice,
             Edit_message_text Rejected] @ es)"
proof -
  let ?w = "w\<lparr>trace := trace w @ [Answer]\<rparr>"
  have sid: "sub_id row = sid"
    using assms(4) by (rule get_submission_sub_id)
  have ok: "on_moderation cfg P uid (Mod_ok sid) w = approve cfg P row ?w"
    using assms by (simp add: on_moderation_def gated_cases call_def)
  have no: "on_moderation cfg P uid (Mod_no sid) w = reject cfg P row ?w"
    using assms by (simp add: on_moderation_def gated_cases call_def)
  have st_ok: "status_of (snd (approve cfg P row ?w)) sid = Some STATUS_SENT"
    if "\<not> raises P (publish_call (sub_chat_id row)
               \<lparr>content_type = sub_content_type row, ptext = sub_text row,
                file_id = sub_file_id row\<rparr>)"
    using that assms(4)
    by (simp add: approve_def Let_def try_pass_call event_log_eq try_except_def
          post_to_channel_def call_def db_write_def sid status_of_def get_submission_set_status)
  have tr_ok: "\<exists>es. trace (snd (approve cfg P row ?w)) =
               trace w @
               [Answer,
                Send_message (sender_user_id row) Approved_notice,
                publish_call (sub_chat_id row)
                  \<lparr>content_type = sub_content_type row, ptext = sub_text row,
                   file_id = sub_file_id row\<rparr>,
                Db_write (Op_set_submission_status sid STATUS_SENT),
                Send_message (sender_user_id row) Message_sent,
                Edit_message_text Approved_and_published] @ es"
    if "\<not> raises P (publish_call (sub_chat_id row)
               \<lparr>content_type = sub_content_type row, ptext = sub_text row,
                file_id = sub_file_id row\<rparr>)"
    using that
    by (simp add: approve_def Let_def try_pass_call event_log_eq try_except_def
          post_to_channel_def call_def db_write_def sid)
  have st_no: "status_of (snd (reject cfg P row ?w)) sid = Some STATUS_REJECTED"
    using assms(4)
    by (simp add: reject_def Let_def try_pass_call event_log_eq call_def db_write_def sid
          status_of_def get_submission_set_status)
  have tr_no: "\<exists>es. trace (snd (reject cfg P row ?w)) =
            trace w @
            [Answer,
             Db_write (Op_set_submission_status sid STATUS_REJECTED),
             Send_message (sender_user_id row) Rejected_notice,
             Edit_message_text Rejected] @ es"
    by (simp add: reject_def Let_def try_pass_call event_log_eq call_def db_write_def sid)
  show ?thesis
    using st_ok tr_ok st_no tr_no unfolding ok no by blast
qed

theorem C2_decision_order_witness:
  "status_of (snd (on_moderation sample_config sample_platform 10 (Mod_ok 1)
                     (sample_world ''owner'' 1))) 1 = Some STATUS_SENT \<and>
   status_of (snd (on_moderation sample_config sample_platform 10 (Mod_no 1)
                     (sample_world ''owner'' 1))) 1 = Some STATUS_REJECTED \<and>
   (\<exists>es. trace (snd (on_moderation sample_config sample_platform 10 (Mod_no 1)
                       (sample_world ''owner'' 1))) =
      [Answer, Db_write (Op_set_submission_status 1 STATUS_REJECTED),
       Send_message 20 Rejected_notice, Edit_message_text Rejected] @ es)"
proof -
  let ?w = "sample_world ''owner'' 1"
  have a: "user_is_allowed (POLICY_HASH sample_config) (db ?w) 10"
    by (simp add: eval_defs)
  have b: "\<not> raises sample_platform Answer"
    by (simp add: sample_platform_def)
  have c: "get_submission (db ?w) 1 = Some sample_row"
    by (simp add: eval_defs)
  have d: "status sample_row = STATUS_PENDING"
    by (simp add: eval_defs)
  have e: "can_moderate sample_platform (db ?w) (sub_chat_id sample_row) 10"
    by (simp add: eval_defs)
  have f: "\<not> raises sample_platform (publish_call (sub_chat_id sample_row)
             \<lparr>content_type = sub_content_type sample_row, ptext = sub_text sample_row,
              file_id = sub_file_id sample_row\<rparr>)"
    by (simp add: sample_platform_def)
  have g: "(10::int) \<noteq> 0" by simp
  have h: "trace ?w = []" by (simp add: sample_world_def)
  have i: "sender_user_id sample_row = 20" by (simp add: sample_row_def)
  show ?thesis
    using C2_decision_order [OF g a b c d e] f h i by simp
qed

section \<open>Binding a channel\<close>

lemma get_st_st [simp]: "get_st uid (st uid w) = get_st uid w"
  by (simp add: get_st_def st_def)

lemma db_st [simp]: "db (st uid w) = db w"
  by (simp add: st_def)

lemma trace_st [simp]: "trace (st uid w) = trace w"
  by (simp add: st_def)

lemma db_set_st [simp]: "db (set_st uid f w) = db w"
  by (simp add: set_st_def)

lemma trace_set_st [simp]: "trace (set_st uid f w) = trace w"
  by (simp add: set_st_def)

lemma get_st_set_st [simp]: "get_st uid (set_st uid f w) = f (get_st uid w)"
  by (simp add: get_st_def set_st_def)

lemma get_st_db_update [simp]: "get_st uid (w\<lparr>db := d\<rparr>) = get_st uid w"
  by (simp add: get_st_def)

lemma get_st_trace_update [simp]: "get_st uid (w\<lparr>trace := t\<rparr>) = get_st uid w"
  by (simp add: get_st_def)

lemma verify_bind_pass:
  assumes "bind_checks_pass P ch uid"
  shows "\<exists>cid uname. get_chat P ch = Ok (cid, uname) \<and>
           verify_bind P ch uid = Returned (True, Reason_OK, Some cid, uname)"
  using assms
  by (auto simp: bind_checks_pass_def verify_bind_def split: api.splits)

lemma verify_bind_fail:
  assumes "\<not> bind_checks_pass P ch uid"
  shows "verify_bind P ch uid = Raised \<or>
         (\<exists>reason. verify_bind P ch uid = Returned (False, reason, None, None))"
  using assms
  by (auto simp: bind_checks_pass_def verify_bind_def split: api.splits)

lemma on_text_bind_pass:
  assumes "CHANNEL_INPUT_RE_match (normalize_channel_input t)"
      and "get_chat P (normalize_channel_input t) = Ok (cid, uname)"
      and "bind_checks_pass P (normalize_channel_input t) uid"
  shows "snd (on_text_bind cfg P uid t w) =
           (set_st uid (\<lambda>s. s\<lparr>mode := None\<rparr>) w)
             \<lparr>db := upsert_channel cid uname uid 1 (db w),
              trace := trace w @
                [Db_write (Op_upsert_channel cid), Reply (Channel_bound cid uname)] @
                (if raises P (Reply (Channel_bound cid uname)) then []
                 else event_log_events cfg (Ev_channel_bound cid))\<rparr>"
proof -
  have "verify_bind P (normalize_channel_input t) uid = Returned (True, Reason_OK, Some cid, uname)"
    using verify_bind_pass [OF assms(3)] assms(2) by simp
  then show ?thesis
    using assms(1)
    by (simp add: on_text_bind_def Let_def db_write_def state_do_def call_def event_log_eq
          set_st_def)
qed

lemma on_text_bind_fail:
  assumes "\<not> bind_checks_pass P (normalize_channel_input t) uid"
  shows "db (snd (on_text_bind cfg P uid t w)) = db w \<and>
         USER_STATE (snd (on_text_bind cfg P uid t w)) = USER_STATE w \<and>
         (\<exists>es. trace (snd (on_text_bind cfg P uid t w)) = trace w @ es \<and>
               (\<forall>e \<in> set es. \<exists>x. e = Reply x))"
  using verify_bind_fail [OF assms]
  by (auto simp: on_text_bind_def Let_def call_def)

lemma on_text_bind_mode:
  assumes "uid \<noteq> 0" and "user_is_allowed (POLICY_HASH cfg) (db w) uid"
      and "mode (get_st uid w) = Some ''ctl_bind_wait''"
  shows "on_text cfg P uid message_text w = on_text_bind cfg P uid (strip message_text) (st uid w)"
  using assms by (simp add: on_text_def gated_cases Let_def)


lemma on_text_reviewers_channels:
  "channels (db (snd (on_text_reviewers cfg P uid t w))) = channels (db w)"
  by (simp add: on_text_reviewers_def Let_def call_def state_do_def db_write_def event_log_eq
        add_reviewer_def remove_reviewer_def split: option.splits)

lemma on_text_pick_db: "db (snd (on_text_pick P uid t w)) = db w"
  by (simp add: on_text_pick_def Let_def call_def state_do_def)

lemma on_text_content_db: "db (snd (on_text_content P uid t w)) = db w"
  by (simp add: on_text_content_def Let_def call_def state_do_def)

lemma on_text_channels_frame:
  assumes "\<not> bind_checks_pass P (normalize_channel_input (strip message_text)) uid"
  shows "channels (db (snd (on_text cfg P uid message_text w))) = channels (db w)"
  using on_text_bind_fail [OF assms, of cfg "st uid w"]
  by (simp add: on_text_def gated_cases Let_def call_def on_text_reviewers_channels
        on_text_pick_db on_text_content_db)

text \<open>
  C4. \<open>verify_bind\<close> answers \<open>ok\<close> exactly when the three checks pass: the channel reference
  resolves, the bot is an administrator of the channel, and the requester is its owner
  (an administrator does not pass). A text message never changes the channels table when
  one of the checks fails, in whatever mode the user is. And a bind request (the user has
  passed the consent gate, is in the mode \<open>ctl_bind_wait\<close>, and the normalised reference has
  the accepted format) whose three checks pass upserts the channel record of the resolved
  chat, with the requester as owner.
\<close>

theorem C4_bind_iff_three_checks:
  "((\<exists>reason chat uname. verify_bind P ch uid = Returned (True, reason, chat, uname)) \<longleftrightarrow>
      bind_checks_pass P ch uid) \<and>
   (\<not> bind_checks_pass P (normalize_channel_input (strip message_text)) uid \<longrightarrow>
      channels (db (snd (on_text cfg P uid message_text w))) = channels (db w)) \<and>
   (uid \<noteq> 0 \<and> user_is_allowed (POLICY_HASH cfg) (db w) uid \<and>
    mode (get_st uid w) = Some ''ctl_bind_wait'' \<and>
    CHANNEL_INPUT_RE_match (normalize_channel_input (strip message_text)) \<and>
    bind_checks_pass P (normalize_channel_input (strip message_text)) uid \<longrightarrow>
      (\<exists>cid uname row.
         get_chat P (normalize_channel_input (strip message_text)) = Ok (cid, uname) \<and>
         db (snd (on_text cfg P uid message_text w)) = upsert_channel cid uname uid 1 (db w) \<and>
         channels (db (snd (on_text cfg P uid message_text w))) cid = Some row \<and>
         owner_user_id row = uid \<and> username row = uname))"
proof (intro conjI impI)
  show "(\<exists>reason chat uname. verify_bind P ch uid = Returned (True, reason, chat, uname)) \<longleftrightarrow>
      bind_checks_pass P ch uid"
    using verify_bind_pass [of P ch uid] verify_bind_fail [of P ch uid] by fastforce
next
  assume "\<not> bind_checks_pass P (normalize_channel_input (strip message_text)) uid"
  then show "channels (db (snd (on_text cfg P uid message_text w))) = channels (db w)"
    by (rule on_text_channels_frame)
next
  let ?ch = "normalize_channel_input (strip message_text)"
  assume a: "uid \<noteq> 0 \<and> user_is_allowed (POLICY_HASH cfg) (db w) uid \<and>
    mode (get_st uid w) = Some ''ctl_bind_wait'' \<and>
    CHANNEL_INPUT_RE_match ?ch \<and> bind_checks_pass P ?ch uid"
  then obtain cid uname where chat: "get_chat P ?ch = Ok (cid, uname)"
    using verify_bind_pass [of P ?ch uid] by blast
  have "on_text cfg P uid message_text w = on_text_bind cfg P uid (strip message_text) (st uid w)"
    using a by (simp add: on_text_bind_mode)
  then have "db (snd (on_text cfg P uid message_text w)) = upsert_channel cid uname uid 1 (db w)"
    using on_text_bind_pass [of "strip message_text" P cid uname uid cfg "st uid w"] a chat
    by simp
  moreover have "\<exists>row. channels (upsert_channel cid uname uid 1 (db w)) cid = Some row \<and>
      owner_user_id row = uid \<and> username row = uname"
    by (simp add: upsert_channel_def split: option.splits)
  ultimately show "\<exists>cid uname row.
         get_chat P ?ch = Ok (cid, uname) \<and>
         db (snd (on_text cfg P uid message_text w)) = upsert_channel cid uname uid 1 (db w) \<and>
         channels (db (snd (on_text cfg P uid message_text w))) cid = Some row \<and>
         owner_user_id row = uid \<and> username row = uname"
    using chat by auto
qed


lemmas text_defs =
  normalize_channel_input_def strip_def isspace_def startswith_def isdigit_def isdigit_char_def
  ascii_digit_def fullmatch_handle_def word_char_def CHANNEL_INPUT_RE_match_def
  channel_re_body_def Let_def

lemma sample_normalize: "normalize_channel_input (strip '' relay_news'') = ''@relay_news''"
  by (simp add: text_defs)

lemma sample_match: "CHANNEL_INPUT_RE_match ''@relay_news''"
  by (simp add: text_defs)

theorem C4_bind_iff_three_checks_witness:
  "bind_checks_pass sample_platform ''@relay_news'' 10 \<and>
   \<not> bind_checks_pass sample_platform ''@relay_news'' 11 \<and>
   get_chat_member sample_platform (-1001) 11 = Ok ADMINISTRATOR \<and>
   channels (db (snd (on_text sample_config sample_platform 11 '' relay_news''
                        (waiting_world ((sample_db ''owner'' 1)\<lparr>channels := Map.empty\<rparr>))))) =
     Map.empty \<and>
   (\<exists>row. channels (db (snd (on_text sample_config sample_platform 10 '' relay_news''
                        (waiting_world ((sample_db ''owner'' 1)\<lparr>channels := Map.empty\<rparr>)))))
             (-1001) = Some row \<and> owner_user_id row = 10)"
proof -
  let ?w = "waiting_world ((sample_db ''owner'' 1)\<lparr>channels := Map.empty\<rparr>)"
  have nz: "(10::int) \<noteq> 0" by simp
  have p10: "bind_checks_pass sample_platform ''@relay_news'' 10"
    by (simp add: bind_checks_pass_def sample_platform_def)
  have p11: "\<not> bind_checks_pass sample_platform ''@relay_news'' 11"
    by (simp add: bind_checks_pass_def sample_platform_def)
  have adm: "get_chat_member sample_platform (-1001) 11 = Ok ADMINISTRATOR"
    by (simp add: sample_platform_def)
  have allowed: "user_is_allowed (POLICY_HASH sample_config) (db ?w) 10"
    by (simp add: user_is_allowed_def get_user_consent_def waiting_world_def sample_db_def
          sample_config_def)
  have md: "mode (get_st 10 ?w) = Some ''ctl_bind_wait''"
    by (simp add: get_st_def waiting_world_def)
  have chat: "get_chat sample_platform ''@relay_news'' = Ok (-1001, Some ''relay_news'')"
    by (simp add: sample_platform_def)
  have empty: "channels (db ?w) = Map.empty"
    by (simp add: waiting_world_def)
  have "channels (db (snd (on_text sample_config sample_platform 11 '' relay_news'' ?w))) = Map.empty"
    using C4_bind_iff_three_checks [of sample_platform "''@relay_news''" 11 "'' relay_news''"
            sample_config ?w] p11 empty
    by (simp add: sample_normalize)
  moreover have "\<exists>row. channels (db (snd (on_text sample_config sample_platform 10
            '' relay_news'' ?w))) (-1001) = Some row \<and> owner_user_id row = 10"
  proof -
    have "\<exists>cid uname row.
         get_chat sample_platform ''@relay_news'' = Ok (cid, uname) \<and>
         db (snd (on_text sample_config sample_platform 10 '' relay_news'' ?w)) =
           upsert_channel cid uname 10 1 (db ?w) \<and>
         channels (db (snd (on_text sample_config sample_platform 10 '' relay_news'' ?w))) cid =
           Some row \<and>
         owner_user_id row = 10 \<and> username row = uname"
      using C4_bind_iff_three_checks [of sample_platform "''@relay_news''" 10 "'' relay_news''"
              sample_config ?w] p10 allowed md sample_match nz
      unfolding sample_normalize by blast
    then obtain cid uname row where
      "get_chat sample_platform ''@relay_news'' = Ok (cid, uname)"
      "channels (db (snd (on_text sample_config sample_platform 10 '' relay_news'' ?w))) cid =
         Some row"
      "owner_user_id row = 10"
      by blast
    with chat show ?thesis by auto
  qed
  ultimately show ?thesis
    using p10 p11 adm by simp
qed

lemma upsert_channel_idem:
  "upsert_channel cid uname uid m (upsert_channel cid uname uid m d) = upsert_channel cid uname uid m d"
  by (simp add: upsert_channel_def split: option.splits)

text \<open>
  C9. A successful bind request for a channel that has no record creates the record with
  moderation \<open>1\<close> (enabled) and reviewer mode \<open>owner\<close>. A successful bind request for a
  channel that has a record changes only its handle and owner: \<open>moderation\<close> and
  \<open>reviewers_mode\<close> keep their values. The records of other channels are untouched, and
  repeating the same upsert on the result changes nothing.
\<close>

theorem C9_bind_defaults_and_rebind:
  assumes "uid \<noteq> 0" and "user_is_allowed (POLICY_HASH cfg) (db w) uid"
      and "mode (get_st uid w) = Some ''ctl_bind_wait''"
      and "CHANNEL_INPUT_RE_match (normalize_channel_input (strip message_text))"
      and "bind_checks_pass P (normalize_channel_input (strip message_text)) uid"
      and "get_chat P (normalize_channel_input (strip message_text)) = Ok (cid, uname)"
  shows "(channels (db w) cid = None \<longrightarrow>
            channels (db (snd (on_text cfg P uid message_text w))) cid =
              Some \<lparr>username = uname, owner_user_id = uid, moderation = 1,
                    reviewers_mode = ''owner''\<rparr>) \<and>
         (\<forall>row. channels (db w) cid = Some row \<longrightarrow>
            channels (db (snd (on_text cfg P uid message_text w))) cid =
              Some (row\<lparr>username := uname, owner_user_id := uid\<rparr>)) \<and>
         (\<forall>c. c \<noteq> cid \<longrightarrow>
            channels (db (snd (on_text cfg P uid message_text w))) c = channels (db w) c) \<and>
         upsert_channel cid uname uid 1 (db (snd (on_text cfg P uid message_text w))) =
           db (snd (on_text cfg P uid message_text w))"
proof -
  have "on_text cfg P uid message_text w = on_text_bind cfg P uid (strip message_text) (st uid w)"
    using assms(1-3) by (rule on_text_bind_mode)
  then have "db (snd (on_text cfg P uid message_text w)) = upsert_channel cid uname uid 1 (db w)"
    using on_text_bind_pass [OF assms(4) assms(6) assms(5), of cfg "st uid w"] by simp
  then show ?thesis
    by (simp add: upsert_channel_idem) (simp add: upsert_channel_def split: option.splits)
qed

theorem C9_bind_defaults_and_rebind_witness:
  "channels (db (snd (on_text sample_config sample_platform 10 '' relay_news''
                        (waiting_world ((sample_db ''owner'' 1)\<lparr>channels := Map.empty\<rparr>)))))
     (-1001) =
     Some \<lparr>username = Some ''relay_news'', owner_user_id = 10, moderation = 1,
           reviewers_mode = ''owner''\<rparr> \<and>
   channels (db (snd (on_text sample_config sample_platform 10 '' relay_news''
                        (waiting_world ((sample_db ''admins'' 0)\<lparr>channels :=
                           [-1001 \<mapsto> \<lparr>username = None, owner_user_id = 10, moderation = 0,
                                       reviewers_mode = ''admins''\<rparr>]\<rparr>)))))
     (-1001) =
     Some \<lparr>username = Some ''relay_news'', owner_user_id = 10, moderation = 0,
           reviewers_mode = ''admins''\<rparr>"
proof -
  let ?w1 = "waiting_world ((sample_db ''owner'' 1)\<lparr>channels := Map.empty\<rparr>)"
  let ?w2 = "waiting_world ((sample_db ''admins'' 0)\<lparr>channels :=
               [-1001 \<mapsto> \<lparr>username = None, owner_user_id = 10, moderation = 0,
                           reviewers_mode = ''admins''\<rparr>]\<rparr>)"
  have nz: "(10::int) \<noteq> 0" by simp
  have pass: "bind_checks_pass sample_platform (normalize_channel_input (strip '' relay_news'')) 10"
    by (simp add: sample_normalize bind_checks_pass_def sample_platform_def)
  have chat: "get_chat sample_platform (normalize_channel_input (strip '' relay_news'')) =
      Ok (-1001, Some ''relay_news'')"
    by (simp add: sample_normalize sample_platform_def)
  have re: "CHANNEL_INPUT_RE_match (normalize_channel_input (strip '' relay_news''))"
    by (simp add: sample_normalize sample_match)
  have a1: "user_is_allowed (POLICY_HASH sample_config) (db ?w1) 10"
    by (simp add: user_is_allowed_def get_user_consent_def waiting_world_def sample_db_def
          sample_config_def)
  have a2: "user_is_allowed (POLICY_HASH sample_config) (db ?w2) 10"
    by (simp add: user_is_allowed_def get_user_consent_def waiting_world_def sample_db_def
          sample_config_def)
  have m1: "mode (get_st 10 ?w1) = Some ''ctl_bind_wait''"
    by (simp add: get_st_def waiting_world_def)
  have m2: "mode (get_st 10 ?w2) = Some ''ctl_bind_wait''"
    by (simp add: get_st_def waiting_world_def)
  have c1: "channels (db ?w1) (-1001) = None"
    by (simp add: waiting_world_def)
  have c2: "channels (db ?w2) (-1001) =
      Some \<lparr>username = None, owner_user_id = 10, moderation = 0, reviewers_mode = ''admins''\<rparr>"
    by (simp add: waiting_world_def)
  show ?thesis
    using C9_bind_defaults_and_rebind [OF nz a1 m1 re pass chat]
          C9_bind_defaults_and_rebind [OF nz a2 m2 re pass chat] c1 c2
    by simp
qed

section \<open>Confirming a submission\<close>

lemma last_dropWhile:
  assumes "dropWhile P xs \<noteq> []"
  shows "last (dropWhile P xs) = last xs"
proof -
  have "last xs = last (takeWhile P xs @ dropWhile P xs)" by simp
  also have "\<dots> = last (dropWhile P xs)" using assms by (simp only: last_append if_False)
  finally show ?thesis by simp
qed

lemma strip_idem: "strip (strip s) = strip s"
proof -
  define v where "v = dropWhile isspace s"
  define u where "u = dropWhile isspace (rev v)"
  have t: "strip s = rev u" by (simp add: strip_def u_def v_def)
  have "dropWhile isspace (rev u) = rev u"
  proof (cases "u = []")
    case True
    then show ?thesis by simp
  next
    case False
    then have "rev v \<noteq> []" by (auto simp: u_def)
    then have vne: "v \<noteq> []" by simp
    have "last u = last (rev v)"
      using False unfolding u_def by (rule last_dropWhile)
    also have "\<dots> = hd v" using vne by (simp add: last_rev)
    finally have "last u = hd v" .
    moreover have "\<not> isspace (hd v)"
      using vne unfolding v_def by (rule hd_dropWhile)
    ultimately have "\<not> isspace (hd (rev u))"
      using False by (simp add: hd_rev)
    then show ?thesis by (simp add: dropWhile_eq_self_iff)
  qed
  then have "strip (rev u) = rev (dropWhile isspace u)"
    by (simp add: strip_def)
  also have "\<dots> = rev u" by (simp add: u_def)
  finally show ?thesis by (simp add: t)
qed

lemma st_trace_update [simp]: "st uid (w\<lparr>trace := t\<rparr>) = (st uid w)\<lparr>trace := t\<rparr>"
  by (simp add: st_def get_st_def)

lemma on_send_buttons_nothing:
  assumes "uid \<noteq> 0" and "user_is_allowed (POLICY_HASH cfg) (db w) uid"
      and "\<not> truthy (selected_chat_id (get_st uid w)) \<or> pending (get_st uid w) = None"
  shows "on_send_buttons cfg P uid ''send_confirm'' w =
           (if raises P Answer then (Raised, w\<lparr>trace := trace w @ [Answer]\<rparr>)
            else if raises P (Edit_message_text Nothing_to_send)
            then (Raised, (st uid w)\<lparr>trace := trace w @ [Answer, Edit_message_text Nothing_to_send]\<rparr>)
            else (Returned (),
                  reset_send uid
                    ((st uid w)\<lparr>trace := trace w @ [Answer, Edit_message_text Nothing_to_send]\<rparr>)))"
  using assms
  by (auto simp: on_send_buttons_def gated_cases call_def truthy_def state_do_def Let_def
        split: option.splits)

text \<open>
  C10. A user who has passed the consent gate presses the send confirmation while no
  channel is selected (none, or the id 0) or nothing is staged. Then the store is unchanged
  (no submission is created) and nothing is sent to any chat; and when neither the
  acknowledgement nor the edit raises, the handler does exactly this: acknowledge, tell the
  user there is nothing to send, and reset the user's send state (mode, selected channel
  and staged content cleared).
\<close>

theorem C10_nothing_to_send:
  assumes "uid \<noteq> 0" and "user_is_allowed (POLICY_HASH cfg) (db w) uid"
      and "\<not> truthy (selected_chat_id (get_st uid w)) \<or> pending (get_st uid w) = None"
  shows "db (snd (on_send_buttons cfg P uid ''send_confirm'' w)) = db w \<and>
         (\<exists>es. trace (snd (on_send_buttons cfg P uid ''send_confirm'' w)) = trace w @ es \<and>
               (\<forall>e \<in> set es. \<not> is_send e)) \<and>
         (\<not> raises P Answer \<and> \<not> raises P (Edit_message_text Nothing_to_send) \<longrightarrow>
            trace (snd (on_send_buttons cfg P uid ''send_confirm'' w)) =
              trace w @ [Answer, Edit_message_text Nothing_to_send] \<and>
            get_st uid (snd (on_send_buttons cfg P uid ''send_confirm'' w)) =
              (get_st uid w)\<lparr>mode := None, selected_chat_id := None, pending := None\<rparr>)"
  unfolding on_send_buttons_nothing [OF assms]
  by (simp add: reset_send_def)


theorem C10_nothing_to_send_witness:
  "\<not> truthy (selected_chat_id (get_st 20 (sample_world ''owner'' 0))) \<and>
   db (snd (on_send_buttons sample_config sample_platform 20 ''send_confirm''
              (sample_world ''owner'' 0))) = db (sample_world ''owner'' 0) \<and>
   trace (snd (on_send_buttons sample_config sample_platform 20 ''send_confirm''
                 (sample_world ''owner'' 0))) = [Answer, Edit_message_text Nothing_to_send] \<and>
   get_st 20 (snd (on_send_buttons sample_config sample_platform 20 ''send_confirm''
                     (sample_world ''owner'' 0))) = default_ustate"
proof -
  let ?w = "sample_world ''owner'' 0"
  have nz: "(20::int) \<noteq> 0" by simp
  have a: "user_is_allowed (POLICY_HASH sample_config) (db ?w) 20"
    by (simp add: eval_defs)
  have s: "get_st 20 ?w = default_ustate"
    by (simp add: get_st_def sample_world_def)
  have b: "\<not> truthy (selected_chat_id (get_st 20 ?w)) \<or> pending (get_st 20 ?w) = None"
    by (simp add: s default_ustate_def truthy_def)
  have c: "\<not> raises sample_platform Answer \<and>
           \<not> raises sample_platform (Edit_message_text Nothing_to_send)"
    by (simp add: sample_platform_def)
  have t: "trace ?w = []" by (simp add: sample_world_def)
  show ?thesis
    using C10_nothing_to_send [OF nz a b, of sample_platform] c t
    by (simp add: s default_ustate_def truthy_def)
qed

lemma direct_post_ok:
  assumes "\<not> raises P (publish_call cid p)"
  shows "db (snd (direct_post cfg P uid cid p w)) =
           snd (create_submission cid uid (content_type p) (ptext p) (file_id p) STATUS_SENT (db w)) \<and>
         (\<exists>es. trace (snd (direct_post cfg P uid cid p w)) =
                 trace w @ publish_call cid p # es \<and> filter carries_content es = [])"
  using assms
  by (simp add: direct_post_def try_finally_def try_except_def post_to_channel_def call_def
        db_write_def event_log_eq event_log_events_def state_do_def reset_send_def)

lemma direct_post_fail:
  assumes "raises P (publish_call cid p)"
  shows "db (snd (direct_post cfg P uid cid p w)) = db w \<and>
         (\<exists>es. trace (snd (direct_post cfg P uid cid p w)) =
                 trace w @ [publish_call cid p, Edit_message_text Cannot_send_to_channel] @ es \<and>
               filter carries_content es = [])"
  using assms
  by (simp add: direct_post_def try_finally_def try_except_def post_to_channel_def call_def
        db_write_def event_log_eq event_log_events_def state_do_def reset_send_def)

lemma on_text_stage:
  assumes "uid \<noteq> 0" and "user_is_allowed (POLICY_HASH cfg) (db w) uid"
      and "truthy (selected_chat_id (get_st uid w))"
      and "mode (get_st uid w) = None \<or> mode (get_st uid w) = Some ''send_wait_content''"
      and "strip message_text \<noteq> []"
  shows "snd (on_text cfg P uid message_text w) =
           (set_st uid (\<lambda>s. s\<lparr>pending := Some \<lparr>content_type = ''text'',
                                               ptext = Some (strip message_text), file_id = None\<rparr>,
                              mode := Some ''send_wait_content''\<rparr>) w)
             \<lparr>trace := trace w @ [Reply Confirm_sending]\<rparr>"
  using assms
  by (auto simp: on_text_def gated_cases Let_def on_text_content_def state_do_def call_def
        set_st_def st_def get_st_def)

lemma on_send_buttons_direct:
  assumes "uid \<noteq> 0" and "user_is_allowed (POLICY_HASH cfg) (db w) uid"
      and "\<not> raises P Answer"
      and "selected_chat_id (get_st uid w) = Some cid" and "cid \<noteq> 0"
      and "pending (get_st uid w) = Some p"
      and "get_channel_by_chat_id (db w) cid = Some row" and "moderation row \<noteq> 1"
  shows "on_send_buttons cfg P uid ''send_confirm'' w =
           direct_post cfg P uid cid p ((st uid w)\<lparr>trace := trace w @ [Answer]\<rparr>)"
  using assms
  by (simp add: on_send_buttons_def gated_cases call_def Let_def)


lemma publish_call_text:
  "publish_call cid \<lparr>content_type = ''text'', ptext = Some (strip t), file_id = None\<rparr> =
     Send_message cid (Content (strip t))"
  by (simp add: publish_call_def strip_idem)

text \<open>
  C8. A user who has passed the consent gate and has a registered channel selected, with
  moderation off, types a non-blank text and then confirms. If the publish call does not
  raise, the submissions table gains exactly one row, with status \<open>sent\<close> and the stripped
  text, and among the calls of the confirmation exactly one carries content: the message
  with that text to the channel. If the publish call raises, the store is unchanged, the
  error is reported to the sender by the edit that follows the attempt, and no second
  attempt is made.
\<close>

theorem C8_direct_post_roundtrip:
  assumes "uid \<noteq> 0" and "user_is_allowed (POLICY_HASH cfg) (db w) uid"
      and "selected_chat_id (get_st uid w) = Some cid" and "cid \<noteq> 0"
      and "mode (get_st uid w) = None \<or> mode (get_st uid w) = Some ''send_wait_content''"
      and "strip message_text \<noteq> []"
      and "get_channel_by_chat_id (db w) cid = Some row" and "moderation row \<noteq> 1"
      and "\<not> raises P2 Answer"
  shows "let w1 = snd (on_text cfg P1 uid message_text w);
             w2 = snd (on_send_buttons cfg P2 uid ''send_confirm'' w1);
             publish = Send_message cid (Content (strip message_text))
         in (\<not> raises P2 publish \<longrightarrow>
               submissions (db w2) =
                 submissions (db w) @
                 [\<lparr>sub_id = next_submission_id (db w), sub_chat_id = cid, sender_user_id = uid,
                   sub_content_type = ''text'', sub_text = Some (strip message_text),
                   sub_file_id = None, status = STATUS_SENT\<rparr>] \<and>
               (\<exists>es. trace w2 = trace w1 @ es \<and> filter carries_content es = [publish])) \<and>
            (raises P2 publish \<longrightarrow>
               db w2 = db w \<and>
               (\<exists>es. trace w2 =
                       trace w1 @ [Answer, publish, Edit_message_text Cannot_send_to_channel] @ es \<and>
                     filter carries_content es = []))"
proof -
  let ?p = "\<lparr>content_type = ''text'', ptext = Some (strip message_text), file_id = None\<rparr>"
  let ?publish = "Send_message cid (Content (strip message_text))"
  define w1 where "w1 = snd (on_text cfg P1 uid message_text w)"
  define w2 where "w2 = snd (on_send_buttons cfg P2 uid ''send_confirm'' w1)"
  have sel: "truthy (selected_chat_id (get_st uid w))"
    using assms(3,4) by (simp add: truthy_def)
  have w1: "w1 = (set_st uid (\<lambda>s. s\<lparr>pending := Some ?p, mode := Some ''send_wait_content''\<rparr>) w)
                   \<lparr>trace := trace w @ [Reply Confirm_sending]\<rparr>"
    unfolding w1_def using assms(1,2) sel assms(5,6) by (rule on_text_stage)
  have db1: "db w1 = db w"
    by (simp add: w1)
  have st1: "get_st uid w1 =
      (get_st uid w)\<lparr>pending := Some ?p, mode := Some ''send_wait_content''\<rparr>"
    by (simp add: w1)
  let ?w = "(st uid w1)\<lparr>trace := trace w1 @ [Answer]\<rparr>"
  have w2: "w2 = snd (direct_post cfg P2 uid cid ?p ?w)"
    unfolding w2_def
    using on_send_buttons_direct [of uid cfg w1 P2 cid ?p row] assms db1 st1
    by simp
  have pc: "publish_call cid ?p = ?publish"
    by (rule publish_call_text)
  have ok: "submissions (db w2) =
                 submissions (db w) @
                 [\<lparr>sub_id = next_submission_id (db w), sub_chat_id = cid, sender_user_id = uid,
                   sub_content_type = ''text'', sub_text = Some (strip message_text),
                   sub_file_id = None, status = STATUS_SENT\<rparr>] \<and>
            (\<exists>es. trace w2 = trace w1 @ es \<and> filter carries_content es = [?publish])"
    if "\<not> raises P2 ?publish"
  proof -
    from that have "\<not> raises P2 (publish_call cid ?p)" by (simp add: pc)
    from direct_post_ok [OF this, of cfg uid ?w]
    obtain es where
      d: "db w2 = snd (create_submission cid uid ''text'' (Some (strip message_text)) None
                         STATUS_SENT (db w))"
      and t: "trace w2 = trace w1 @ Answer # ?publish # es" "filter carries_content es = []"
      unfolding w2 pc by (auto simp: db1)
    have "filter carries_content (Answer # ?publish # es) = [?publish]"
      using t(2) by simp
    with d t(1) show ?thesis
      by (simp add: create_submission_def Let_def)
  qed
  have fail: "db w2 = db w \<and>
               (\<exists>es. trace w2 =
                       trace w1 @ [Answer, ?publish, Edit_message_text Cannot_send_to_channel] @ es \<and>
                     filter carries_content es = [])"
    if "raises P2 ?publish"
  proof -
    from that have "raises P2 (publish_call cid ?p)" by (simp add: pc)
    from direct_post_fail [OF this, of cfg uid ?w]
    show ?thesis
      unfolding w2 pc by (auto simp: db1)
  qed
  show ?thesis
    unfolding Let_def w1_def [symmetric] w2_def [symmetric]
    using ok fail by blast
qed

theorem C8_direct_post_roundtrip_witness:
  "submissions (db (snd (on_send_buttons sample_config sample_platform 20 ''send_confirm''
       (snd (on_text sample_config sample_platform 20 '' hi '' staged_world))))) =
     [\<lparr>sub_id = 1, sub_chat_id = -1001, sender_user_id = 20, sub_content_type = ''text'',
       sub_text = Some ''hi'', sub_file_id = None, status = ''sent''\<rparr>] \<and>
   (\<exists>es. trace (snd (on_send_buttons sample_config sample_platform 20 ''send_confirm''
            (snd (on_text sample_config sample_platform 20 '' hi '' staged_world)))) =
          trace (snd (on_text sample_config sample_platform 20 '' hi '' staged_world)) @ es \<and>
          filter carries_content es = [Send_message (-1001) (Content ''hi'')])"
proof -
  let ?w = staged_world
  have nz: "(20::int) \<noteq> 0" by simp
  have a: "user_is_allowed (POLICY_HASH sample_config) (db ?w) 20"
    by (simp add: staged_world_def eval_defs)
  have s: "get_st 20 ?w = default_ustate\<lparr>selected_chat_id := Some (-1001)\<rparr>"
    by (simp add: get_st_def staged_world_def)
  have b: "selected_chat_id (get_st 20 ?w) = Some (-1001)"
    by (simp add: s)
  have c: "(-1001::int) \<noteq> 0" by simp
  have d: "mode (get_st 20 ?w) = None \<or> mode (get_st 20 ?w) = Some ''send_wait_content''"
    by (simp add: s default_ustate_def)
  have e: "strip '' hi '' = ''hi''"
    by (simp add: strip_def isspace_def)
  have e': "strip '' hi '' \<noteq> []"
    by (simp add: e)
  have f: "get_channel_by_chat_id (db ?w) (-1001) = Some (sample_channel ''owner'' 0)"
    by (simp add: staged_world_def get_channel_by_chat_id_def sample_db_def)
  have g: "moderation (sample_channel ''owner'' 0) \<noteq> 1"
    by (simp add: sample_channel_def)
  have h: "\<not> raises sample_platform Answer"
    by (simp add: sample_platform_def)
  have i: "\<not> raises sample_platform (Send_message (-1001) (Content ''hi''))"
    by (simp add: sample_platform_def)
  have j: "submissions (db ?w) = []" "next_submission_id (db ?w) = 1"
    by (simp_all add: staged_world_def sample_db_def empty_db_def next_submission_id_def)
  show ?thesis
    using C8_direct_post_roundtrip [OF nz a b c d e' f g h, of sample_platform] i j
    unfolding Let_def e by (simp add: STATUS_SENT_def)
qed

section \<open>Deeplink resolution\<close>

lemma find_append_case:
  "find P (xs @ ys) = (case find P xs of None \<Rightarrow> find P ys | Some x \<Rightarrow> Some x)"
  by (induction xs) auto

lemma resolve_create:
  "resolve_deeplink (create_deeplink code cid d) code' =
     (if code' = code then Some cid else resolve_deeplink d code')"
  by (simp add: resolve_deeplink_def create_deeplink_def)

lemma resolve_issue_links:
  "resolve_deeplink (issue_links sha256 salt cids d) code =
     (case find (\<lambda>c. make_code_for_chat sha256 salt c = code) (rev cids) of
        Some c \<Rightarrow> Some c
      | None \<Rightarrow> resolve_deeplink d code)"
proof (induction cids arbitrary: d)
  case Nil
  show ?case by simp
next
  case (Cons cid cids)
  show ?case
    by (simp add: Cons.IH resolve_create find_append_case split: option.splits)
qed

lemma find_SomeD: "find P xs = Some x \<Longrightarrow> x \<in> set xs \<and> P x"
  by (induction xs) (auto split: if_splits)

lemma resolve_unissued:
  assumes "code \<notin> make_code_for_chat sha256 salt ` set cids"
  shows "resolve_deeplink (issue_links sha256 salt cids empty_db) code = None"
proof -
  have "find (\<lambda>c. make_code_for_chat sha256 salt c = code) (rev cids) = None"
    using assms by (auto simp: find_None_iff)
  then have "resolve_deeplink (issue_links sha256 salt cids empty_db) code =
      resolve_deeplink empty_db code"
    by (simp add: resolve_issue_links)
  also have "\<dots> = None"
    by (simp add: resolve_deeplink_def empty_db_def)
  finally show ?thesis .
qed

lemma resolve_issued:
  assumes "cid \<in> set cids"
      and "\<forall>c \<in> set cids. make_code_for_chat sha256 salt c = make_code_for_chat sha256 salt cid
             \<longrightarrow> c = cid"
  shows "resolve_deeplink (issue_links sha256 salt cids d) (make_code_for_chat sha256 salt cid) =
           Some cid"
proof (cases "find (\<lambda>c. make_code_for_chat sha256 salt c = make_code_for_chat sha256 salt cid)
               (rev cids)")
  case None
  then show ?thesis
    using assms(1) by (auto simp: find_None_iff)
next
  case (Some c)
  then have "c \<in> set cids"
        and "make_code_for_chat sha256 salt c = make_code_for_chat sha256 salt cid"
    by (auto dest: find_SomeD)
  then have "c = cid"
    using assms(2) by blast
  with Some show ?thesis
    by (simp add: resolve_issue_links)
qed

lemma on_menu_ch_link_db:
  "db (snd (on_menu_ch_link sha256 cfg P uid cid w)) =
     (if uid \<noteq> 0 \<and> user_is_allowed (POLICY_HASH cfg) (db w) uid \<and> \<not> raises P Answer \<and>
         (\<exists>row. get_channel_by_chat_id (db w) cid = Some row \<and> owner_user_id row = uid)
      then issue_links sha256 (DEEPLINK_SALT cfg) [cid] (db w)
      else db w)"
  by (auto simp: on_menu_ch_link_def gated_cases call_def Let_def db_write_def event_log_eq
        split: option.splits)

text \<open>
  C7. The code of a channel is a function of the chat id and the process-wide salt alone:
  a link request by the channel's owner stores exactly the code derived from the chat id
  (and any other request stores nothing), and issuing the link of a channel twice leaves
  the same store as issuing it once. Resolving the code right after it was issued for a chat
  returns that chat. After any sequence of issued links on an empty links table, a code
  that was never issued resolves to not-found, and the code issued for a chat resolves to
  that chat as long as no other chat in the sequence was given the same code (a later row
  with an equal code replaces the earlier one).
\<close>

theorem C7_deeplink_codes:
  "db (snd (on_menu_ch_link sha256 cfg P uid cid w)) =
     (if uid \<noteq> 0 \<and> user_is_allowed (POLICY_HASH cfg) (db w) uid \<and> \<not> raises P Answer \<and>
         (\<exists>row. get_channel_by_chat_id (db w) cid = Some row \<and> owner_user_id row = uid)
      then issue_links sha256 (DEEPLINK_SALT cfg) [cid] (db w)
      else db w) \<and>
   issue_links sha256 salt [cid, cid] d = issue_links sha256 salt [cid] d \<and>
   resolve_deeplink (issue_links sha256 salt [cid] d) (make_code_for_chat sha256 salt cid) =
     Some cid \<and>
   (code \<notin> make_code_for_chat sha256 salt ` set cids \<longrightarrow>
      resolve_deeplink (issue_links sha256 salt cids empty_db) code = None) \<and>
   (cid \<in> set cids \<and>
    (\<forall>c \<in> set cids. make_code_for_chat sha256 salt c = make_code_for_chat sha256 salt cid
        \<longrightarrow> c = cid) \<longrightarrow>
      resolve_deeplink (issue_links sha256 salt cids d) (make_code_for_chat sha256 salt cid) =
        Some cid)"
proof (intro conjI impI)
  show "db (snd (on_menu_ch_link sha256 cfg P uid cid w)) =
     (if uid \<noteq> 0 \<and> user_is_allowed (POLICY_HASH cfg) (db w) uid \<and> \<not> raises P Answer \<and>
         (\<exists>row. get_channel_by_chat_id (db w) cid = Some row \<and> owner_user_id row = uid)
      then issue_links sha256 (DEEPLINK_SALT cfg) [cid] (db w)
      else db w)"
    by (rule on_menu_ch_link_db)
next
  show "issue_links sha256 salt [cid, cid] d = issue_links sha256 salt [cid] d"
    by (simp add: create_deeplink_def)
next
  show "resolve_deeplink (issue_links sha256 salt [cid] d) (make_code_for_chat sha256 salt cid) =
     Some cid"
    by (simp add: resolve_create)
next
  assume "code \<notin> make_code_for_chat sha256 salt ` set cids"
  then show "resolve_deeplink (issue_links sha256 salt cids empty_db) code = None"
    by (rule resolve_unissued)
next
  assume "cid \<in> set cids \<and>
    (\<forall>c \<in> set cids. make_code_for_chat sha256 salt c = make_code_for_chat sha256 salt cid
        \<longrightarrow> c = cid)"
  then show "resolve_deeplink (issue_links sha256 salt cids d)
      (make_code_for_chat sha256 salt cid) = Some cid"
    using resolve_issued [of cid cids sha256 salt d] by blast
qed

lemma sample_code_1: "make_code_for_chat sample_digest ''salt'' (-1001) = ''FUYTAMBRHJZWC3DU''"
  by code_simp

lemma sample_code_2: "make_code_for_chat sample_digest ''salt'' (-1002) = ''FUYTAMBSHJZWC3DU''"
  by code_simp

theorem C7_deeplink_codes_witness:
  "''NOPE'' \<notin> make_code_for_chat sample_digest ''salt'' ` set [-1001, -1002] \<and>
   resolve_deeplink (issue_links sample_digest ''salt'' [-1001, -1002] empty_db) ''NOPE'' = None \<and>
   resolve_deeplink (issue_links sample_digest ''salt'' [-1001, -1002] empty_db)
     ''FUYTAMBRHJZWC3DU'' = Some (-1001) \<and>
   resolve_deeplink (issue_links sample_digest ''salt'' [-1001, -1002] empty_db)
     ''FUYTAMBSHJZWC3DU'' = Some (-1002)"
proof -
  have a: "''NOPE'' \<notin> make_code_for_chat sample_digest ''salt'' ` set [-1001, -1002]"
    by (simp add: sample_code_1 sample_code_2)
  have b: "(-1001::int) \<in> set [-1001, -1002] \<and>
    (\<forall>c \<in> set [-1001, -1002]. make_code_for_chat sample_digest ''salt'' c =
        make_code_for_chat sample_digest ''salt'' (-1001) \<longrightarrow> c = -1001)"
    by (simp add: sample_code_1 sample_code_2)
  have c: "(-1002::int) \<in> set [-1001, -1002] \<and>
    (\<forall>c \<in> set [-1001, -1002]. make_code_for_chat sample_digest ''salt'' c =
        make_code_for_chat sample_digest ''salt'' (-1002) \<longrightarrow> c = -1002)"
    by (simp add: sample_code_1 sample_code_2)
  note t1 = C7_deeplink_codes [of sample_digest sample_config sample_platform 10 "-1001"
            "sample_world ''owner'' 1" "''salt''" empty_db "''NOPE''" "[-1001, -1002]"]
  note t2 = C7_deeplink_codes [of sample_digest sample_config sample_platform 10 "-1002"
            "sample_world ''owner'' 1" "''salt''" empty_db "''NOPE''" "[-1001, -1002]"]
  have r0: "resolve_deeplink (issue_links sample_digest ''salt'' [-1001, -1002] empty_db)
      ''NOPE'' = None"
    using t1 a by blast
  have r1: "resolve_deeplink (issue_links sample_digest ''salt'' [-1001, -1002] empty_db)
      (make_code_for_chat sample_digest ''salt'' (-1001)) = Some (-1001)"
    using t1 b by blast
  have r2: "resolve_deeplink (issue_links sample_digest ''salt'' [-1001, -1002] empty_db)
      (make_code_for_chat sample_digest ''salt'' (-1002)) = Some (-1002)"
    using t2 c by blast
  show ?thesis
    using a r0 r1 [unfolded sample_code_1] r2 [unfolded sample_code_2] by (intro conjI)
qed

end
